theory Spec2Isabelle
  imports Complex_Main
begin

section \<open>JavaScript strings\<close>

text \<open>
  A JavaScript string is a sequence of UTF-16 code units; a code unit is a natural number.
  \<open>js\<close> turns an ASCII literal into its code units.
\<close>

type_synonym jsstring = "nat list"

definition js :: "string \<Rightarrow> jsstring" where
  "js s = map of_char s"

fun inRanges :: "(nat \<times> nat) list \<Rightarrow> nat \<Rightarrow> bool" where
  "inRanges [] c = False"
| "inRanges ((lo, hi) # rs) c = ((lo \<le> c \<and> c \<le> hi) \<or> inRanges rs c)"

text \<open>
  The code units that \<open>\s\<close>, \<open>trim\<close> and \<open>parseFloat\<close> treat as white space
  (ECMAScript WhiteSpace and LineTerminator): TAB..CR, SP, NBSP, U+1680, U+2000..U+200A,
  U+2028, U+2029, U+202F, U+205F, U+3000, U+FEFF.
\<close>

definition wsRanges :: "(nat \<times> nat) list" where
  "wsRanges = [(9, 13), (32, 32), (160, 160), (5760, 5760), (8192, 8202), (8232, 8233),
               (8239, 8239), (8287, 8287), (12288, 12288), (65279, 65279)]"

definition isWhiteSpace :: "nat \<Rightarrow> bool" where
  "isWhiteSpace c = inRanges wsRanges c"

definition isDigit :: "nat \<Rightarrow> bool" where
  "isDigit c = (48 \<le> c \<and> c \<le> 57)"

text \<open>
  \<open>String.prototype.toLowerCase\<close> on the Basic Latin and Latin-1 blocks. Code units of
  other blocks are left as they are: the rest of the Unicode case table is not modelled.
\<close>

definition lowerUnit :: "nat \<Rightarrow> nat" where
  "lowerUnit c =
     (if (65 \<le> c \<and> c \<le> 90) \<or> (192 \<le> c \<and> c \<le> 214) \<or> (216 \<le> c \<and> c \<le> 222)
      then c + 32 else c)"

definition toLowerCase :: "jsstring \<Rightarrow> jsstring" where
  "toLowerCase s = map lowerUnit s"

definition startsWith :: "jsstring \<Rightarrow> jsstring \<Rightarrow> bool" where
  "startsWith s p = (take (length p) s = p)"

fun includesJs :: "jsstring \<Rightarrow> jsstring \<Rightarrow> bool" where
  "includesJs [] p = (p = [])"
| "includesJs (c # cs) p = (startsWith (c # cs) p \<or> includesJs cs p)"

definition trim :: "jsstring \<Rightarrow> jsstring" where
  "trim s = rev (dropWhile isWhiteSpace (rev (dropWhile isWhiteSpace s)))"

text \<open>\<open>s.replace(a, b)\<close> with one-character string arguments: the first occurrence only.\<close>

fun replaceFirst :: "nat \<Rightarrow> nat \<Rightarrow> jsstring \<Rightarrow> jsstring" where
  "replaceFirst a b [] = []"
| "replaceFirst a b (c # cs) = (if c = a then b # cs else c # replaceFirst a b cs)"

text \<open>\<open>s.split(d)\<close> for a one-character separator; \<open>"".split(".")\<close> is \<open>[""]\<close>.\<close>

fun splitOn :: "nat \<Rightarrow> jsstring \<Rightarrow> jsstring list" where
  "splitOn d [] = [[]]"
| "splitOn d (c # cs) =
     (if c = d then [] # splitOn d cs
      else (case splitOn d cs of [] \<Rightarrow> [[c]] | p # ps \<Rightarrow> (c # p) # ps))"

text \<open>
  An array element inside a template literal: an index past the end reads \<open>undefined\<close>,
  which the template renders as the text "undefined".
\<close>

definition templatePart :: "jsstring list \<Rightarrow> nat \<Rightarrow> jsstring" where
  "templatePart ps i = (if i < length ps then ps ! i else js ''undefined'')"

fun digitsOf :: "nat \<Rightarrow> jsstring" where
  "digitsOf n = (if n < 10 then [48 + n] else digitsOf (n div 10) @ [48 + n mod 10])"

declare digitsOf.simps [simp del]

definition padStart0 :: "nat \<Rightarrow> jsstring \<Rightarrow> jsstring" where
  "padStart0 n s = replicate (n - length s) 48 @ s"

section \<open>JavaScript regular expressions\<close>

text \<open>
  The patterns of the command interpreter are kept as syntax trees and run by a backtracking
  matcher that follows the ECMAScript semantics: alternatives are tried left to right and the
  first that lets the rest of the pattern match wins (not the longest), a greedy quantifier
  tries one more iteration before the continuation and a lazy one the continuation first, and
  an iteration of a quantifier whose minimum is used up must consume input.
  \<open>Rep lo hi greedy r\<close> is \<open>r{lo,hi}\<close> (\<open>hi = None\<close> for no upper bound).
  No pattern of the program has a capture group under a quantifier, so captures are never reset.
\<close>

datatype regex =
    Chr nat
  | Dot
  | CSet "(nat \<times> nat) list"
  | Eol
  | Eps
  | Seq regex regex
  | Alt regex regex
  | Rep nat "nat option" bool regex
  | Grp nat regex

datatype frame = R regex | Close nat jsstring | Chk nat regex

type_synonym caps = "(nat \<times> jsstring) list"

text \<open>
  Canonicalisation under the \<open>i\<close> flag, on ASCII letters (a code unit above 127 never folds
  to an ASCII one in a non-unicode pattern).
\<close>

definition canon :: "bool \<Rightarrow> nat \<Rightarrow> nat" where
  "canon ic c = (if ic \<and> 97 \<le> c \<and> c \<le> 122 then c - 32 else c)"

definition swapCase :: "nat \<Rightarrow> nat" where
  "swapCase c = (if 97 \<le> c \<and> c \<le> 122 then c - 32 else if 65 \<le> c \<and> c \<le> 90 then c + 32 else c)"

definition inClass :: "bool \<Rightarrow> (nat \<times> nat) list \<Rightarrow> nat \<Rightarrow> bool" where
  "inClass ic rs c = (inRanges rs c \<or> (ic \<and> inRanges rs (swapCase c)))"

definition isLineTerminator :: "nat \<Rightarrow> bool" where
  "isLineTerminator c = (c = 10 \<or> c = 13 \<or> c = 8232 \<or> c = 8233)"

definition decr :: "nat option \<Rightarrow> nat option" where
  "decr hi = (case hi of None \<Rightarrow> None | Some n \<Rightarrow> Some (n - 1))"

fun rweight :: "regex \<Rightarrow> nat" where
  "rweight (Chr _) = 1"
| "rweight Dot = 1"
| "rweight (CSet _) = 1"
| "rweight Eol = 1"
| "rweight Eps = 1"
| "rweight (Seq a b) = 1 + rweight a + rweight b"
| "rweight (Alt a b) = 1 + rweight a + rweight b"
| "rweight (Rep lo hi g a) = (lo + 1) * (rweight a + 2)"
| "rweight (Grp n a) = 2 + rweight a"

fun fweight :: "nat \<Rightarrow> frame \<Rightarrow> nat" where
  "fweight n (R r) = rweight r"
| "fweight n (Close _ _) = 1"
| "fweight n (Chk k r) = (if n < k then rweight r + 1 else 0)"

definition sweight :: "nat \<Rightarrow> frame list \<Rightarrow> nat" where
  "sweight n k = sum_list (map (fweight n) k)"

text \<open>
  \<open>matchFrames ic k s c\<close> matches the stack \<open>k\<close> of pending pattern parts against the rest
  \<open>s\<close> of the input. \<open>Close n s0\<close> ends capture group \<open>n\<close>, opened when the rest was
  \<open>s0\<close>; \<open>Chk n r\<close> continues with \<open>r\<close> only if input was consumed since the rest had
  length \<open>n\<close>. The result is the rest after the match and the captures.
\<close>

function (sequential) matchFrames ::
  "bool \<Rightarrow> frame list \<Rightarrow> jsstring \<Rightarrow> caps \<Rightarrow> (jsstring \<times> caps) option" where
  "matchFrames ic [] s c = Some (s, c)"
| "matchFrames ic (R (Chr x) # k) s c =
     (case s of [] \<Rightarrow> None
      | y # ys \<Rightarrow> if canon ic x = canon ic y then matchFrames ic k ys c else None)"
| "matchFrames ic (R Dot # k) s c =
     (case s of [] \<Rightarrow> None
      | y # ys \<Rightarrow> if isLineTerminator y then None else matchFrames ic k ys c)"
| "matchFrames ic (R (CSet rs) # k) s c =
     (case s of [] \<Rightarrow> None
      | y # ys \<Rightarrow> if inClass ic rs y then matchFrames ic k ys c else None)"
| "matchFrames ic (R Eol # k) s c = (if s = [] then matchFrames ic k s c else None)"
| "matchFrames ic (R Eps # k) s c = matchFrames ic k s c"
| "matchFrames ic (R (Seq a b) # k) s c = matchFrames ic (R a # R b # k) s c"
| "matchFrames ic (R (Alt a b) # k) s c =
     (case matchFrames ic (R a # k) s c of
        Some r \<Rightarrow> Some r
      | None \<Rightarrow> matchFrames ic (R b # k) s c)"
| "matchFrames ic (R (Grp n a) # k) s c = matchFrames ic (R a # Close n s # k) s c"
| "matchFrames ic (Close n s0 # k) s c =
     matchFrames ic k s ((n, take (length s0 - length s) s0) # c)"
| "matchFrames ic (R (Rep lo hi g a) # k) s c =
     (if hi = Some 0 then matchFrames ic k s c
      else if 0 < lo then matchFrames ic (R a # R (Rep (lo - 1) (decr hi) g a) # k) s c
      else if g then
        (case matchFrames ic (R a # Chk (length s) (Rep 0 (decr hi) g a) # k) s c of
           Some r \<Rightarrow> Some r
         | None \<Rightarrow> matchFrames ic k s c)
      else
        (case matchFrames ic k s c of
           Some r \<Rightarrow> Some r
         | None \<Rightarrow> matchFrames ic (R a # Chk (length s) (Rep 0 (decr hi) g a) # k) s c))"
| "matchFrames ic (Chk n r # k) s c =
     (if length s < n then matchFrames ic (R r # k) s c else None)"
  by pat_completeness auto

termination
  apply (relation "measures [\<lambda>(ic, k, s, c). length s, \<lambda>(ic, k, s, c). sweight (length s) k]")
  apply (auto simp: sweight_def)
  done

text \<open>
  \<open>str.match(re)\<close> for a pattern without the \<open>g\<close> flag: the match at the leftmost start
  index that has one. \<open>group1\<close> is \<open>match?.[1]\<close>: \<open>None\<close> stands for \<open>undefined\<close>
  (no match, or group 1 took no part in it).
\<close>

fun regexSearch :: "bool \<Rightarrow> regex \<Rightarrow> jsstring \<Rightarrow> caps option" where
  "regexSearch ic r [] = map_option snd (matchFrames ic [R r] [] [])"
| "regexSearch ic r (x # xs) =
     (case matchFrames ic [R r] (x # xs) [] of
        Some (_, c) \<Rightarrow> Some c
      | None \<Rightarrow> regexSearch ic r xs)"

definition group1 :: "bool \<Rightarrow> regex \<Rightarrow> jsstring \<Rightarrow> jsstring option" where
  "group1 ic r s = (case regexSearch ic r s of None \<Rightarrow> None | Some c \<Rightarrow> map_of c 1)"

fun lit :: "jsstring \<Rightarrow> regex" where
  "lit [] = Eps"
| "lit [c] = Chr c"
| "lit (c # cs) = Seq (Chr c) (lit cs)"

fun alts :: "regex list \<Rightarrow> regex" where
  "alts [] = CSet []"
| "alts [r] = r"
| "alts (r # rs) = Alt r (alts rs)"

fun seqs :: "regex list \<Rightarrow> regex" where
  "seqs [] = Eps"
| "seqs [r] = r"
| "seqs (r # rs) = Seq r (seqs rs)"

definition words :: "string list \<Rightarrow> regex" where
  "words ws = alts (map (\<lambda>w. lit (js w)) ws)"

definition digit :: regex where
  "digit = CSet [(48, 57)]"

definition ropt :: "regex \<Rightarrow> regex" where
  "ropt r = Rep 0 (Some 1) True r"

definition rstar :: "regex \<Rightarrow> regex" where
  "rstar r = Rep 0 None True r"

definition rplus :: "regex \<Rightarrow> regex" where
  "rplus r = Rep 1 None True r"

definition lazyStar :: "regex \<Rightarrow> regex" where
  "lazyStar r = Rep 0 None False r"

section \<open>JavaScript numbers\<close>

text \<open>
  A number is \<open>NaN\<close>, an infinity or a finite value. Finite values are taken exactly, as
  rationals: binary rounding, overflow to an infinity and the sign of zero are not modelled.
\<close>

datatype number = Num rat | PosInf | NegInf | NaN

fun nadd :: "number \<Rightarrow> number \<Rightarrow> number" where
  "nadd NaN _ = NaN"
| "nadd _ NaN = NaN"
| "nadd (Num a) (Num b) = Num (a + b)"
| "nadd PosInf NegInf = NaN"
| "nadd NegInf PosInf = NaN"
| "nadd PosInf _ = PosInf"
| "nadd NegInf _ = NegInf"
| "nadd _ PosInf = PosInf"
| "nadd _ NegInf = NegInf"

fun nneg :: "number \<Rightarrow> number" where
  "nneg (Num a) = Num (- a)"
| "nneg PosInf = NegInf"
| "nneg NegInf = PosInf"
| "nneg NaN = NaN"

definition nsub :: "number \<Rightarrow> number \<Rightarrow> number" where
  "nsub a b = nadd a (nneg b)"

fun nabs :: "number \<Rightarrow> number" where
  "nabs (Num a) = Num \<bar>a\<bar>"
| "nabs PosInf = PosInf"
| "nabs NegInf = PosInf"
| "nabs NaN = NaN"

text \<open>\<open>a < b\<close>; every comparison with \<open>NaN\<close> is false.\<close>

fun nlt :: "number \<Rightarrow> number \<Rightarrow> bool" where
  "nlt NaN _ = False"
| "nlt _ NaN = False"
| "nlt (Num a) (Num b) = (a < b)"
| "nlt NegInf NegInf = False"
| "nlt NegInf _ = True"
| "nlt _ NegInf = False"
| "nlt PosInf _ = False"
| "nlt _ PosInf = True"

text \<open>\<open>a === b\<close>: \<open>NaN\<close> equals nothing.\<close>

definition neq :: "number \<Rightarrow> number \<Rightarrow> bool" where
  "neq a b = (a \<noteq> NaN \<and> a = b)"

definition nle :: "number \<Rightarrow> number \<Rightarrow> bool" where
  "nle a b = (nlt a b \<or> neq a b)"

definition isNaN :: "number \<Rightarrow> bool" where
  "isNaN a = (a = NaN)"

text \<open>\<open>Math.max(a, b)\<close>.\<close>

definition nmax :: "number \<Rightarrow> number \<Rightarrow> number" where
  "nmax a b = (if a = NaN \<or> b = NaN then NaN else if nlt a b then b else a)"

text \<open>\<open>Math.ceil(a)\<close>.\<close>

fun nceil :: "number \<Rightarrow> number" where
  "nceil (Num a) = Num (of_int \<lceil>a\<rceil>)"
| "nceil x = x"

text \<open>\<open>a / b\<close>; a zero divisor counts as \<open>+0\<close>.\<close>

fun ndiv :: "number \<Rightarrow> number \<Rightarrow> number" where
  "ndiv NaN _ = NaN"
| "ndiv _ NaN = NaN"
| "ndiv (Num a) (Num b) =
     (if b \<noteq> 0 then Num (a / b) else if 0 < a then PosInf else if a < 0 then NegInf else NaN)"
| "ndiv (Num a) _ = Num 0"
| "ndiv PosInf (Num b) = (if b < 0 then NegInf else PosInf)"
| "ndiv NegInf (Num b) = (if b < 0 then PosInf else NegInf)"
| "ndiv _ _ = NaN"

text \<open>
  \<open>parseFloat\<close>: leading white space is skipped, then the longest prefix that is a decimal
  literal (sign, digits, fraction, exponent) or a signed \<open>Infinity\<close> is read; whatever
  follows is ignored, and \<open>NaN\<close> is returned when there is no such prefix.
\<close>

definition digitsValue :: "jsstring \<Rightarrow> nat" where
  "digitsValue ds = foldl (\<lambda>a c. 10 * a + (c - 48)) 0 ds"

definition pow10 :: "int \<Rightarrow> rat" where
  "pow10 e = (if 0 \<le> e then 10 ^ nat e else 1 / 10 ^ nat (- e))"

definition splitSign :: "jsstring \<Rightarrow> bool \<times> jsstring" where
  "splitSign s =
     (case s of [] \<Rightarrow> (False, [])
      | c # cs \<Rightarrow> if c = 45 then (True, cs) else if c = 43 then (False, cs) else (False, s))"

definition parseExponent :: "jsstring \<Rightarrow> int" where
  "parseExponent r =
     (case r of [] \<Rightarrow> 0
      | e # r1 \<Rightarrow>
          if e = 101 \<or> e = 69 then
            (case splitSign r1 of (neg, r2) \<Rightarrow>
               let ds = takeWhile isDigit r2 in
               if ds = [] then 0
               else if neg then - int (digitsValue ds) else int (digitsValue ds))
          else 0)"

definition parseFloat :: "jsstring \<Rightarrow> number" where
  "parseFloat s =
     (case splitSign (dropWhile isWhiteSpace s) of (neg, u) \<Rightarrow>
        if startsWith u (js ''Infinity'') then (if neg then NegInf else PosInf)
        else
          let ip = takeWhile isDigit u;
              r1 = dropWhile isDigit u;
              afterDot = (case r1 of [] \<Rightarrow> None | c # cs \<Rightarrow> if c = 46 then Some cs else None);
              fp = (case afterDot of None \<Rightarrow> [] | Some cs \<Rightarrow> takeWhile isDigit cs);
              r2 = (case afterDot of None \<Rightarrow> r1 | Some cs \<Rightarrow> dropWhile isDigit cs)
          in if ip = [] \<and> fp = [] then NaN
             else Num ((if neg then - 1 else 1)
                       * (of_nat (digitsValue (ip @ fp)) / 10 ^ length fp)
                       * pow10 (parseExponent r2)))"

section \<open>JavaScript dates and the date-fns helpers\<close>

text \<open>
  A \<open>Date\<close> holds a time value in milliseconds, or is invalid (\<open>None\<close>) when a
  computed time value leaves the range of \<open>TimeClip\<close>. The local time zone is taken to be
  UTC, without daylight saving. Days are counted from 1970-01-01 in the proleptic Gregorian
  calendar; months are numbered from 0 as in JavaScript, except in \<open>daysFromCivil\<close> and
  \<open>civilFromDays\<close>, which count them from 1.
\<close>

datatype error = RangeError

type_synonym jsdate = "int option"

definition msPerDay :: int where
  "msPerDay = 86400000"

definition timeClip :: "int \<Rightarrow> jsdate" where
  "timeClip t = (if \<bar>t\<bar> \<le> 8640000000000000 then Some t else None)"

text \<open>
  The day number of a date, from the year \<open>y1\<close> of the year that starts in March and the
  month \<open>mp\<close> counted from March, and back: the year is located in its 400-year era, the
  day in its year, and the month from the day of the year.
\<close>

definition daysFromShifted :: "int \<Rightarrow> int \<Rightarrow> int \<Rightarrow> int" where
  "daysFromShifted y1 mp d =
     (y1 div 400) * 146097
     + ((y1 mod 400) * 365 + (y1 mod 400) div 4 - (y1 mod 400) div 100
        + (153 * mp + 2) div 5 + d - 1)
     - 719468"

definition daysFromCivil :: "int \<Rightarrow> int \<Rightarrow> int \<Rightarrow> int" where
  "daysFromCivil y m d =
     daysFromShifted (if m \<le> 2 then y - 1 else y) (if 2 < m then m - 3 else m + 9) d"

definition civilFromMp :: "int \<Rightarrow> int \<Rightarrow> int \<Rightarrow> int \<times> int \<times> int" where
  "civilFromMp y doy mp =
     (if mp < 10 then (y, mp + 3, doy - (153 * mp + 2) div 5 + 1)
      else (y + 1, mp - 9, doy - (153 * mp + 2) div 5 + 1))"

definition civilFromDoy :: "int \<Rightarrow> int \<Rightarrow> int \<times> int \<times> int" where
  "civilFromDoy y doy = civilFromMp y doy ((5 * doy + 2) div 153)"

definition civilFromYoe :: "int \<Rightarrow> int \<Rightarrow> int \<Rightarrow> int \<times> int \<times> int" where
  "civilFromYoe era doe yoe =
     civilFromDoy (yoe + era * 400) (doe - (365 * yoe + yoe div 4 - yoe div 100))"

definition civilFromDoe :: "int \<Rightarrow> int \<Rightarrow> int \<times> int \<times> int" where
  "civilFromDoe era doe =
     civilFromYoe era doe ((doe - doe div 1460 + doe div 36524 - doe div 146096) div 365)"

definition civilFromDays :: "int \<Rightarrow> int \<times> int \<times> int" where
  "civilFromDays z = civilFromDoe ((z + 719468) div 146097) ((z + 719468) mod 146097)"

definition dayNumber :: "int \<Rightarrow> int" where
  "dayNumber t = t div msPerDay"

definition timeWithinDay :: "int \<Rightarrow> int" where
  "timeWithinDay t = t mod msPerDay"

definition getFullYear :: "int \<Rightarrow> int" where
  "getFullYear t = fst (civilFromDays (dayNumber t))"

definition getMonth :: "int \<Rightarrow> int" where
  "getMonth t = fst (snd (civilFromDays (dayNumber t))) - 1"

definition getDate :: "int \<Rightarrow> int" where
  "getDate t = snd (snd (civilFromDays (dayNumber t)))"

text \<open>\<open>getDay\<close>: 0 is Sunday; 1970-01-01 was a Thursday.\<close>

definition getDay :: "int \<Rightarrow> int" where
  "getDay t = (dayNumber t + 4) mod 7"

text \<open>
  \<open>MakeDay(year, month, date)\<close>: a month outside 0..11 carries into the year and a day
  outside the month carries into the neighbouring months.
\<close>

definition makeDay :: "int \<Rightarrow> int \<Rightarrow> int \<Rightarrow> int" where
  "makeDay y m d = daysFromCivil (y + m div 12) (m mod 12 + 1) 1 + d - 1"

definition makeDate :: "int \<Rightarrow> int \<Rightarrow> int" where
  "makeDate day time = day * msPerDay + time"

definition setDate :: "int \<Rightarrow> int \<Rightarrow> jsdate" where
  "setDate t d = timeClip (makeDate (makeDay (getFullYear t) (getMonth t) d) (timeWithinDay t))"

text \<open>\<open>setMonth(month)\<close> keeps the day of the month, \<open>setMonth(month, date)\<close> sets both.\<close>

definition setMonth :: "int \<Rightarrow> int \<Rightarrow> jsdate" where
  "setMonth t m = timeClip (makeDate (makeDay (getFullYear t) m (getDate t)) (timeWithinDay t))"

definition setMonth2 :: "int \<Rightarrow> int \<Rightarrow> int \<Rightarrow> jsdate" where
  "setMonth2 t m d = timeClip (makeDate (makeDay (getFullYear t) m d) (timeWithinDay t))"

definition setFullYear :: "int \<Rightarrow> int \<Rightarrow> int \<Rightarrow> int \<Rightarrow> jsdate" where
  "setFullYear t y m d = timeClip (makeDate (makeDay y m d) (timeWithinDay t))"

definition setHours :: "int \<Rightarrow> int \<Rightarrow> int \<Rightarrow> int \<Rightarrow> int \<Rightarrow> jsdate" where
  "setHours t h mi s ms = timeClip (makeDate (dayNumber t) (((h * 60 + mi) * 60 + s) * 1000 + ms))"

text \<open>\<open>ToIntegerOrInfinity\<close> on a finite value: truncation towards zero.\<close>

definition truncInt :: "rat \<Rightarrow> int" where
  "truncInt r = (if 0 \<le> r then \<lfloor>r\<rfloor> else \<lceil>r\<rceil>)"

text \<open>date-fns \<open>addDays(date, amount)\<close>: \<open>setDate(getDate() + amount)\<close>.\<close>

definition addDays :: "jsdate \<Rightarrow> int \<Rightarrow> jsdate" where
  "addDays d amount =
     (if amount = 0 then d
      else (case d of None \<Rightarrow> None | Some t \<Rightarrow> setDate t (getDate t + amount)))"

text \<open>
  date-fns \<open>addMonths(date, amount)\<close>: the last day of the desired month is computed first
  (\<open>setMonth(getMonth() + amount + 1, 0)\<close>), and the day of the month is kept unless the
  desired month is shorter. An amount that is \<open>NaN\<close> or infinite gives an invalid date.
\<close>

definition addMonths :: "jsdate \<Rightarrow> number \<Rightarrow> jsdate" where
  "addMonths d amount =
     (case amount of
        Num r \<Rightarrow>
          if r = 0 then d
          else (case d of
                  None \<Rightarrow> None
                | Some t \<Rightarrow>
                    (case setMonth2 t (truncInt (of_int (getMonth t) + r + 1)) 0 of
                       None \<Rightarrow> None
                     | Some endOfDesiredMonth \<Rightarrow>
                         if getDate endOfDesiredMonth \<le> getDate t then Some endOfDesiredMonth
                         else setFullYear t (getFullYear endOfDesiredMonth)
                                (getMonth endOfDesiredMonth) (getDate t)))
      | PosInf \<Rightarrow> None
      | NegInf \<Rightarrow> None
      | NaN \<Rightarrow> None)"

definition subMonths :: "jsdate \<Rightarrow> number \<Rightarrow> jsdate" where
  "subMonths d amount = addMonths d (nneg amount)"

definition startOfMonth :: "jsdate \<Rightarrow> jsdate" where
  "startOfMonth d =
     (case d of None \<Rightarrow> None
      | Some t \<Rightarrow> (case setDate t 1 of None \<Rightarrow> None | Some t1 \<Rightarrow> setHours t1 0 0 0 0))"

definition endOfMonth :: "jsdate \<Rightarrow> jsdate" where
  "endOfMonth d =
     (case d of None \<Rightarrow> None
      | Some t \<Rightarrow>
          (case setFullYear t (getFullYear t) (getMonth t + 1) 0 of
             None \<Rightarrow> None
           | Some t1 \<Rightarrow> setHours t1 23 59 59 999))"

text \<open>date-fns \<open>startOfWeek(date, {weekStartsOn})\<close>.\<close>

definition weekDiff :: "int \<Rightarrow> int \<Rightarrow> int" where
  "weekDiff day weekStartsOn = (if day < weekStartsOn then 7 else 0) + day - weekStartsOn"

definition startOfWeek :: "jsdate \<Rightarrow> int \<Rightarrow> jsdate" where
  "startOfWeek d weekStartsOn =
     (case d of None \<Rightarrow> None
      | Some t \<Rightarrow>
          (case setDate t (getDate t - weekDiff (getDay t) weekStartsOn) of
             None \<Rightarrow> None
           | Some t1 \<Rightarrow> setHours t1 0 0 0 0))"

text \<open>
  date-fns \<open>nextDay\<close> and \<open>previousDay\<close>: a difference of weekdays that is not positive is
  moved on by a week. \<open>nextSaturday\<close> and \<open>previousTuesday\<close> are their instances for day 6
  and day 2.
\<close>

definition wrapDelta :: "int \<Rightarrow> int" where
  "wrapDelta delta = (if delta \<le> 0 then delta + 7 else delta)"

definition nextDay :: "jsdate \<Rightarrow> int \<Rightarrow> jsdate" where
  "nextDay d day =
     (case d of None \<Rightarrow> None | Some t \<Rightarrow> addDays (Some t) (wrapDelta (day - getDay t)))"

definition previousDay :: "jsdate \<Rightarrow> int \<Rightarrow> jsdate" where
  "previousDay d day =
     (case d of None \<Rightarrow> None | Some t \<Rightarrow> addDays (Some t) (- wrapDelta (getDay t - day)))"

definition nextSaturday :: "jsdate \<Rightarrow> jsdate" where
  "nextSaturday d = nextDay d 6"

definition previousTuesday :: "jsdate \<Rightarrow> jsdate" where
  "previousTuesday d = previousDay d 2"

text \<open>\<open>a >= b\<close> and \<open>a <= b\<close> on dates: false when either is invalid.\<close>

definition dateGe :: "jsdate \<Rightarrow> jsdate \<Rightarrow> bool" where
  "dateGe a b =
     (case a of None \<Rightarrow> False | Some x \<Rightarrow> (case b of None \<Rightarrow> False | Some y \<Rightarrow> y \<le> x))"

definition dateLe :: "jsdate \<Rightarrow> jsdate \<Rightarrow> bool" where
  "dateLe a b =
     (case a of None \<Rightarrow> False | Some x \<Rightarrow> (case b of None \<Rightarrow> False | Some y \<Rightarrow> x \<le> y))"

definition isValid :: "jsdate \<Rightarrow> bool" where
  "isValid d = (d \<noteq> None)"

text \<open>
  date-fns \<open>format\<close> throws a \<open>RangeError\<close> on an invalid date. The token \<open>yyyy\<close> prints
  the year of the era (\<open>1 - year\<close> for a year below 1) on at least four digits.
\<close>

definition yearOfEra :: "int \<Rightarrow> nat" where
  "yearOfEra y = (if 0 < y then nat y else nat (1 - y))"

definition pad2 :: "int \<Rightarrow> jsstring" where
  "pad2 n = padStart0 2 (digitsOf (nat n))"

definition format_yyyy_MM_dd :: "jsdate \<Rightarrow> error + jsstring" where
  "format_yyyy_MM_dd d =
     (case d of
        None \<Rightarrow> Inl RangeError
      | Some t \<Rightarrow>
          Inr (padStart0 4 (digitsOf (yearOfEra (getFullYear t))) @ js ''-''
               @ pad2 (getMonth t + 1) @ js ''-'' @ pad2 (getDate t)))"

definition monthAbbreviations :: "string list" where
  "monthAbbreviations = [''Jan'', ''Feb'', ''Mar'', ''Apr'', ''May'', ''Jun'',
                         ''Jul'', ''Aug'', ''Sep'', ''Oct'', ''Nov'', ''Dec'']"

definition format_MMM_d :: "jsdate \<Rightarrow> error + jsstring" where
  "format_MMM_d d =
     (case d of
        None \<Rightarrow> Inl RangeError
      | Some t \<Rightarrow>
          Inr (js (monthAbbreviations ! nat (getMonth t)) @ js '' ''
               @ digitsOf (nat (getDate t))))"

text \<open>
  \<open>Date.prototype.toISOString\<close>: a \<open>RangeError\<close> on an invalid date; years outside
  0..9999 are printed with a sign and six digits.
\<close>

definition isoYear :: "int \<Rightarrow> jsstring" where
  "isoYear y =
     (if 0 \<le> y \<and> y \<le> 9999 then padStart0 4 (digitsOf (nat y))
      else (if y < 0 then js ''-'' else js ''+'') @ padStart0 6 (digitsOf (nat \<bar>y\<bar>)))"

definition isoTime :: "int \<Rightarrow> jsstring" where
  "isoTime ms =
     pad2 (ms div 3600000) @ js '':'' @ pad2 (ms div 60000 mod 60) @ js '':''
     @ pad2 (ms div 1000 mod 60) @ js ''.'' @ padStart0 3 (digitsOf (nat (ms mod 1000)))"

definition toISOString :: "jsdate \<Rightarrow> error + jsstring" where
  "toISOString d =
     (case d of
        None \<Rightarrow> Inl RangeError
      | Some t \<Rightarrow>
          Inr (isoYear (getFullYear t) @ js ''-'' @ pad2 (getMonth t + 1) @ js ''-''
               @ pad2 (getDate t) @ js ''T'' @ isoTime (timeWithinDay t) @ js ''Z''))"

text \<open>The time value of local midnight of a calendar date (month counted from 1).\<close>

definition midnight :: "int \<Rightarrow> int \<Rightarrow> int \<Rightarrow> int" where
  "midnight y m d = daysFromCivil y m d * msPerDay"

section \<open>Data model (types.ts)\<close>

text \<open>
  \<open>tx_data\<close> is \<open>Omit<Transaction, "id">\<close>, what the statement importer produces;
  a \<open>transaction\<close> adds the id. A missing optional field is \<open>None\<close>. The field \<open>id\<close>
  of the source is \<open>tx_id\<close>, \<open>goal_id\<close> and \<open>pi_id\<close> here, and the \<open>text\<close> of a chat
  message is \<open>message\<close>.
\<close>

record tx_data =
  date :: jsstring
  description :: jsstring
  amount :: number
  category :: jsstring

record transaction = tx_data +
  tx_id :: jsstring

record goal =
  goal_id :: jsstring
  name :: jsstring
  targetAmount :: number
  currentAmount :: number
  deadline :: "jsstring option"
  estimatedCompletionDate :: "jsstring option"

record predicted_income =
  pi_id :: jsstring
  pi_date :: jsstring
  source :: jsstring
  pi_amount :: number

datatype sender_kind = User | Ai

record chat_message =
  sender :: sender_kind
  message :: jsstring

text \<open>The state that \<open>App\<close> keeps with \<open>useState\<close>.\<close>

record app_state =
  transactions :: "transaction list"
  goals :: "goal list"
  predictedIncome :: "predicted_income list"
  selectedCurrency :: jsstring
  chatHistory :: "chat_message list"

text \<open>
  Library functions the program calls and this development does not define: they are
  parameters of the model. \<open>parseISO\<close> is date-fns \<open>parseISO\<close>; \<open>parseDateP\<close> is date-fns
  \<open>parse(text, "P", reference)\<close>, with \<open>None\<close> for an invalid date or an exception;
  \<open>formatPPP\<close> is date-fns \<open>format(date, "PPP")\<close> on a valid date; \<open>formatCurrency\<close> is
  the helper of App.tsx, which asks \<open>Intl.NumberFormat\<close> and has a fallback of its own.
\<close>

record library =
  parseISO :: "jsstring \<Rightarrow> jsdate"
  parseDateP :: "jsstring \<Rightarrow> int \<Rightarrow> jsdate"
  formatPPP :: "int \<Rightarrow> jsstring"
  formatCurrency :: "number \<Rightarrow> jsstring \<Rightarrow> jsstring"

section \<open>Ledger and goal handlers (App.tsx)\<close>

text \<open>\<open>uuidv4()\<close> is an input of the model: the ids it returns are passed in.\<close>

definition withId :: "tx_data \<Rightarrow> jsstring \<Rightarrow> transaction" where
  "withId t i = \<lparr>date = date t, description = description t, amount = amount t,
                 category = category t, tx_id = i\<rparr>"

fun assignIds :: "(nat \<Rightarrow> jsstring) \<Rightarrow> nat \<Rightarrow> tx_data list \<Rightarrow> transaction list" where
  "assignIds uuid n [] = []"
| "assignIds uuid n (t # ts) = withId t (uuid n) # assignIds uuid (Suc n) ts"

text \<open>\<open>handleImportTransactions\<close>: \<open>uuid i\<close> is the result of the \<open>i\<close>-th call of \<open>uuidv4\<close>.\<close>

definition handleImportTransactions ::
  "(nat \<Rightarrow> jsstring) \<Rightarrow> app_state \<Rightarrow> tx_data list \<Rightarrow> app_state" where
  "handleImportTransactions uuid st importedTransactions =
     st\<lparr>transactions := transactions st @ assignIds uuid 0 importedTransactions\<rparr>"

text \<open>
  \<open>handleAddGoal\<close> takes the name, the target amount and the optional deadline, and returns
  the new goal with the new state.
\<close>

definition handleAddGoal ::
  "jsstring \<Rightarrow> app_state \<Rightarrow> jsstring \<Rightarrow> number \<Rightarrow> jsstring option \<Rightarrow> goal \<times> app_state" where
  "handleAddGoal newId st goalName goalAmount goalDeadline =
     (let newGoal = \<lparr>goal_id = newId, name = goalName, targetAmount = goalAmount,
                     currentAmount = Num 0, deadline = goalDeadline,
                     estimatedCompletionDate = None\<rparr>
      in (newGoal, st\<lparr>goals := goals st @ [newGoal]\<rparr>))"

definition handleEditTransaction :: "app_state \<Rightarrow> transaction \<Rightarrow> app_state" where
  "handleEditTransaction st updatedTransaction =
     st\<lparr>transactions :=
          map (\<lambda>t. if tx_id t = tx_id updatedTransaction then updatedTransaction else t)
            (transactions st)\<rparr>"

definition handleDeleteTransaction :: "app_state \<Rightarrow> jsstring \<Rightarrow> app_state" where
  "handleDeleteTransaction st transactionId =
     st\<lparr>transactions := filter (\<lambda>t. tx_id t \<noteq> transactionId) (transactions st)\<rparr>"

section \<open>Goal projection (the effect on the transaction list, App.tsx)\<close>

text \<open>The sum \<open>xs.reduce((sum, t) => sum + t.amount, 0)\<close>.\<close>

definition sumAmounts :: "transaction list \<Rightarrow> number" where
  "sumAmounts ts = foldl (\<lambda>sum t. nadd sum (amount t)) (Num 0) ts"

definition threeMonthsAgo :: "int \<Rightarrow> jsdate" where
  "threeMonthsAgo now = startOfMonth (subMonths (Some now) (Num 3))"

text \<open>The three filters of the effect: \<open>isValid(parseISO(t.date)) && parseISO(t.date) >=
  threeMonthsAgo\<close>, \<open>t.amount > 0\<close> and \<open>t.amount < 0\<close>.\<close>

definition isRecent :: "library \<Rightarrow> int \<Rightarrow> transaction \<Rightarrow> bool" where
  "isRecent L now t =
     (isValid (parseISO L (date t)) \<and> dateGe (parseISO L (date t)) (threeMonthsAgo now))"

definition isIncome :: "transaction \<Rightarrow> bool" where
  "isIncome t = nlt (Num 0) (amount t)"

definition isSpending :: "transaction \<Rightarrow> bool" where
  "isSpending t = nlt (amount t) (Num 0)"

definition recentTransactions :: "library \<Rightarrow> int \<Rightarrow> transaction list \<Rightarrow> transaction list" where
  "recentTransactions L now ts = filter (isRecent L now) ts"

definition totalRecentIncome :: "library \<Rightarrow> int \<Rightarrow> transaction list \<Rightarrow> number" where
  "totalRecentIncome L now ts = sumAmounts (filter isIncome (recentTransactions L now ts))"

definition totalRecentExpenses :: "library \<Rightarrow> int \<Rightarrow> transaction list \<Rightarrow> number" where
  "totalRecentExpenses L now ts = sumAmounts (filter isSpending (recentTransactions L now ts))"

definition averageMonthlySavings :: "library \<Rightarrow> int \<Rightarrow> transaction list \<Rightarrow> number" where
  "averageMonthlySavings L now ts =
     ndiv (nadd (totalRecentIncome L now ts) (totalRecentExpenses L now ts)) (Num 3)"

definition remainingAmount :: "goal \<Rightarrow> number" where
  "remainingAmount g = nmax (Num 0) (nsub (targetAmount g) (currentAmount g))"

text \<open>
  The callback of \<open>goals.map\<close>. \<open>toISOString\<close> throws on an invalid date, which
  \<open>addMonths\<close> returns when the number of months is not finite or too large.
\<close>

definition setEstimate :: "goal \<Rightarrow> error + jsstring \<Rightarrow> error + goal" where
  "setEstimate g r =
     (case r of Inl e \<Rightarrow> Inl e | Inr s \<Rightarrow> Inr (g\<lparr>estimatedCompletionDate := Some s\<rparr>))"

definition projectGoal :: "library \<Rightarrow> int \<Rightarrow> transaction list \<Rightarrow> goal \<Rightarrow> error + goal" where
  "projectGoal L now ts g =
     (if neq (remainingAmount g) (Num 0) then setEstimate g (toISOString (Some now))
      else if nle (averageMonthlySavings L now ts) (Num 0)
      then Inr (g\<lparr>estimatedCompletionDate := None\<rparr>)
      else setEstimate g
             (toISOString
                (addMonths (Some now)
                   (nceil (ndiv (remainingAmount g) (averageMonthlySavings L now ts))))))"

text \<open>\<open>xs.map(f)\<close> for a callback that may throw: the first exception ends the loop.\<close>

fun mapE :: "('a \<Rightarrow> error + 'b) \<Rightarrow> 'a list \<Rightarrow> error + 'b list" where
  "mapE f [] = Inr []"
| "mapE f (x # xs) =
     (case f x of
        Inl e \<Rightarrow> Inl e
      | Inr y \<Rightarrow> (case mapE f xs of Inl e \<Rightarrow> Inl e | Inr ys \<Rightarrow> Inr (y # ys)))"

definition projectGoals ::
  "library \<Rightarrow> goal list \<Rightarrow> transaction list \<Rightarrow> int \<Rightarrow> error + goal list" where
  "projectGoals L gs ts now = mapE (projectGoal L now ts) gs"

text \<open>
  The effect itself: the goals are replaced when the recomputed list differs from the
  current one (the two lists differ in the estimates only, so comparing their JSON texts
  is comparing the lists). Nothing else of the state is written.
\<close>

definition goalReactor :: "library \<Rightarrow> int \<Rightarrow> app_state \<Rightarrow> error + app_state" where
  "goalReactor L now st =
     (case projectGoals L (goals st) (transactions st) now of
        Inl e \<Rightarrow> Inl e
      | Inr updatedGoals \<Rightarrow>
          Inr (if updatedGoals \<noteq> goals st then st\<lparr>goals := updatedGoals\<rparr> else st))"

section \<open>Command interpreter (handleAiCommand, App.tsx)\<close>

subsection \<open>The patterns\<close>

text \<open>
  \<open>(\d{1,3}(?:[S]\d{3})*(?:[.,]\d+)?|\d+(?:[.,]\d+)?)\<close>, for the class \<open>S\<close> of grouping
  separators: space, comma, \<open>\s\<close> and U+00A0 in the goal branch; space, comma and \<open>\s\<close> in the
  transaction branch.
\<close>

definition decimalsRe :: regex where
  "decimalsRe = ropt (Seq (CSet [(46, 46), (44, 44)]) (rplus digit))"

definition amountCore :: "(nat \<times> nat) list \<Rightarrow> regex" where
  "amountCore separators =
     Grp 1 (Alt
       (seqs [Rep 1 (Some 3) True digit,
              rstar (Seq (CSet separators) (Rep 3 (Some 3) True digit)),
              decimalsRe])
       (seqs [rplus digit, decimalsRe]))"

definition goalSeparators :: "(nat \<times> nat) list" where
  "goalSeparators = [(32, 32), (44, 44)] @ wsRanges @ [(160, 160)]"

definition txSeparators :: "(nat \<times> nat) list" where
  "txSeparators = [(32, 32), (44, 44)] @ wsRanges"

text \<open>\<open>/(?:goal|for|to buy) (.*?)(?: for | with | costing | of | target | deadline|$)/i\<close>\<close>

definition nameRe :: regex where
  "nameRe =
     seqs [words [''goal'', ''for'', ''to buy''], Chr 32, Grp 1 (lazyStar Dot),
           alts [lit (js '' for ''), lit (js '' with ''), lit (js '' costing ''),
                 lit (js '' of ''), lit (js '' target ''), lit (js '' deadline''), Eol]]"

text \<open>
  The amount pattern of the goal branch, with the flag \<open>i\<close> and its optional currency
  suffix: \<open>czk\<close>, \<open>k\<close> followed by U+010D (269), \<open>eur\<close>, \<open>usd\<close>, the dollar sign or
  the euro sign (8364), each after an optional space.
\<close>

definition goalAmountRe :: regex where
  "goalAmountRe =
     Seq (amountCore goalSeparators)
       (ropt (alts [Seq (ropt (Chr 32)) (lit (js ''czk'')),
                    Seq (ropt (Chr 32)) (Seq (Chr 107) (Chr 269)),
                    Seq (ropt (Chr 32)) (lit (js ''eur'')),
                    Seq (ropt (Chr 32)) (lit (js ''usd'')),
                    Seq (ropt (Chr 32)) (Chr 36),
                    Seq (ropt (Chr 32)) (Chr 8364)]))"

text \<open>\<open>/(?:by|deadline) (.*?)(?:$)/i\<close>\<close>

definition deadlineRe :: regex where
  "deadlineRe = seqs [words [''by'', ''deadline''], Chr 32, Grp 1 (lazyStar Dot), Eol]"

text \<open>\<open>/(?:on|for) (.*?)(?: last month| this month|\?)?$/i\<close>\<close>

definition keywordRe :: regex where
  "keywordRe =
     seqs [words [''on'', ''for''], Chr 32, Grp 1 (lazyStar Dot),
           ropt (alts [lit (js '' last month''), lit (js '' this month''), Chr 63]), Eol]"

definition txAmountRe :: regex where
  "txAmountRe = amountCore txSeparators"

text \<open>\<open>/(?:expense|income|spent|received)(?: of | )\d.*? (?:for|on) (.*?)(?: on | tomorrow| today| yesterday| next| last)?$/\<close>\<close>

definition descriptionRe :: regex where
  "descriptionRe =
     seqs [words [''expense'', ''income'', ''spent'', ''received''],
           Alt (lit (js '' of '')) (Chr 32), digit, lazyStar Dot, Chr 32,
           words [''for'', ''on''], Chr 32, Grp 1 (lazyStar Dot),
           ropt (words ['' on '', '' tomorrow'', '' today'', '' yesterday'', '' next'', '' last'']),
           Eol]"

text \<open>\<open>/(?: on | at | for )?(today|tomorrow|yesterday|next (?:week|weekend|saturday|...)|last (?:...)|\d{1,2}[./-]\d{1,2}(?:[./-]\d{2,4})?)$/\<close>\<close>

definition weekdayRe :: regex where
  "weekdayRe = words [''week'', ''weekend'', ''saturday'', ''sunday'', ''monday'', ''tuesday'',
                      ''wednesday'', ''thursday'', ''friday'']"

definition dateSepRe :: regex where
  "dateSepRe = CSet [(46, 46), (47, 47), (45, 45)]"

definition dateRe :: regex where
  "dateRe =
     seqs [ropt (words ['' on '', '' at '', '' for '']),
           Grp 1 (alts [lit (js ''today''), lit (js ''tomorrow''), lit (js ''yesterday''),
                        Seq (lit (js ''next '')) weekdayRe,
                        Seq (lit (js ''last '')) weekdayRe,
                        seqs [Rep 1 (Some 2) True digit, dateSepRe, Rep 1 (Some 2) True digit,
                              ropt (Seq dateSepRe (Rep 2 (Some 4) True digit))]]),
           Eol]"

subsection \<open>Shared steps\<close>

text \<open>\<open>x || d\<close> for an optional string: \<open>undefined\<close> and the empty string give \<open>d\<close>.\<close>

definition orDefault :: "jsstring option \<Rightarrow> jsstring \<Rightarrow> jsstring" where
  "orDefault x d = (case x of None \<Rightarrow> d | Some s \<Rightarrow> if s = [] then d else s)"

definition truthy :: "jsstring option \<Rightarrow> bool" where
  "truthy x = (case x of None \<Rightarrow> False | Some s \<Rightarrow> s \<noteq> [])"

text \<open>
  \<open>match?.[1]?.replace(/[S]/g, "").replace(",", ".")\<close>: every separator of the class is
  removed, then the first comma left, if any, becomes a dot.
\<close>

definition cleanAmount :: "(nat \<times> nat) list \<Rightarrow> jsstring \<Rightarrow> jsstring" where
  "cleanAmount separators s = replaceFirst 44 46 (filter (\<lambda>c. \<not> inRanges separators c) s)"

text \<open>\<open>str ? parseFloat(str) : 0\<close>\<close>

definition amountOf :: "jsstring option \<Rightarrow> number" where
  "amountOf str =
     (case str of None \<Rightarrow> Num 0 | Some s \<Rightarrow> if s = [] then Num 0 else parseFloat s)"

definition goalAmount :: "jsstring \<Rightarrow> number" where
  "goalAmount lowerCommand =
     amountOf (map_option (cleanAmount goalSeparators) (group1 True goalAmountRe lowerCommand))"

definition amountVal :: "jsstring \<Rightarrow> number" where
  "amountVal lowerCommand =
     amountOf (map_option (cleanAmount txSeparators) (group1 False txAmountRe lowerCommand))"

subsection \<open>Goal creation\<close>

definition goalName :: "jsstring \<Rightarrow> jsstring" where
  "goalName lowerCommand =
     orDefault (map_option trim (group1 True nameRe lowerCommand)) (js ''New Goal'')"

text \<open>The deadline: parsed with the pattern \<open>P\<close> and printed as \<open>yyyy-MM-dd\<close>;
  a failure of either leaves it undefined.\<close>

definition goalDeadline :: "library \<Rightarrow> int \<Rightarrow> jsstring \<Rightarrow> jsstring option" where
  "goalDeadline L now lowerCommand =
     (case group1 True deadlineRe lowerCommand of
        None \<Rightarrow> None
      | Some s \<Rightarrow>
          if s = [] then None
          else (case parseDateP L (trim s) now of
                  None \<Rightarrow> None
                | Some t \<Rightarrow>
                    (case format_yyyy_MM_dd (Some t) of
                       Inl e \<Rightarrow> None
                     | Inr f \<Rightarrow> if f = [] then None else Some f)))"

text \<open>The part of the confirmation about the deadline; \<open>format\<close> throws when the
  deadline does not parse back.\<close>

definition deadlineText :: "library \<Rightarrow> jsstring option \<Rightarrow> error + jsstring" where
  "deadlineText L dl =
     (case dl of
        None \<Rightarrow> Inr []
      | Some f \<Rightarrow>
          (case parseISO L f of
             None \<Rightarrow> Inl RangeError
           | Some t \<Rightarrow> Inr (js '' with a deadline of '' @ formatPPP L t)))"

definition goalGuidance :: jsstring where
  "goalGuidance = js (''Sorry, I couldn't understand the goal details. Please specify a name ''
     @ ''and amount, like 'add goal New Car for 100000'. You can optionally add 'by YYYY-MM-DD'.'')"

definition createGoal ::
  "library \<Rightarrow> int \<Rightarrow> jsstring \<Rightarrow> app_state \<Rightarrow> jsstring \<Rightarrow> (error + jsstring) \<times> app_state" where
  "createGoal L now newId st lowerCommand =
     (if nlt (Num 0) (goalAmount lowerCommand) \<and> goalName lowerCommand \<noteq> js ''New Goal''
      then
        (case handleAddGoal newId st (goalName lowerCommand) (goalAmount lowerCommand)
                (goalDeadline L now lowerCommand) of
           (newGoal, st1) \<Rightarrow>
             (case deadlineText L (goalDeadline L now lowerCommand) of
                Inl e \<Rightarrow> (Inl e, st1)
              | Inr dt \<Rightarrow>
                  (Inr (js ''OK, I've added the goal \"'' @ name newGoal @ js ''\" for ''
                        @ formatCurrency L (targetAmount newGoal) (selectedCurrency st)
                        @ dt @ js ''. I'll estimate the completion date.''),
                   st1)))
      else (Inr goalGuidance, st))"

subsection \<open>Spending analysis\<close>

text \<open>
  \<open>targetDate.setMonth(targetDate.getMonth() - 1)\<close> for "last month"; the day of the month
  is kept, and a day the earlier month does not have carries over into the next month.
\<close>

definition targetDate :: "int \<Rightarrow> bool \<Rightarrow> jsdate" where
  "targetDate now lastMonthMatch =
     (if lastMonthMatch then setMonth now (getMonth now - 1) else Some now)"

definition keywordOf :: "jsstring \<Rightarrow> jsstring option" where
  "keywordOf lowerCommand = map_option trim (group1 True keywordRe lowerCommand)"

definition inMonth :: "library \<Rightarrow> jsdate \<Rightarrow> transaction \<Rightarrow> bool" where
  "inMonth L target t =
     (isValid (parseISO L (date t)) \<and> dateGe (parseISO L (date t)) (startOfMonth target)
      \<and> dateLe (parseISO L (date t)) (endOfMonth target))"

definition keywordMatches :: "jsstring option \<Rightarrow> transaction \<Rightarrow> bool" where
  "keywordMatches keyword t =
     (case keyword of
        None \<Rightarrow> True
      | Some k \<Rightarrow>
          k = []
          \<or> (category t \<noteq> [] \<and> includesJs (toLowerCase (category t)) k)
          \<or> (description t \<noteq> [] \<and> includesJs (toLowerCase (description t)) k))"

text \<open>The body of \<open>transactions.forEach\<close>, on the pair of \<open>totalSpent\<close> and
  \<open>matchingTransactions\<close>.\<close>

definition spendingStep ::
  "library \<Rightarrow> jsdate \<Rightarrow> jsstring option \<Rightarrow> number \<times> nat \<Rightarrow> transaction \<Rightarrow> number \<times> nat" where
  "spendingStep L target keyword acc t =
     (if inMonth L target t \<and> nlt (amount t) (Num 0) \<and> keywordMatches keyword t
      then (nadd (fst acc) (amount t), Suc (snd acc))
      else acc)"

definition spendingTotals ::
  "library \<Rightarrow> jsdate \<Rightarrow> jsstring option \<Rightarrow> transaction list \<Rightarrow> number \<times> nat" where
  "spendingTotals L target keyword ts = foldl (spendingStep L target keyword) (Num 0, 0) ts"

definition timeFrame :: "bool \<Rightarrow> jsstring" where
  "timeFrame lastMonthMatch = (if lastMonthMatch then js ''last month'' else js ''this month'')"

definition totalResponse :: "library \<Rightarrow> jsstring \<Rightarrow> bool \<Rightarrow> number \<times> nat \<Rightarrow> jsstring" where
  "totalResponse L currency lastMonthMatch totals =
     js ''You spent a total of '' @ formatCurrency L (nabs (fst totals)) currency
     @ js '' '' @ timeFrame lastMonthMatch @ js ''.''"

definition keywordResponse ::
  "library \<Rightarrow> jsstring \<Rightarrow> jsstring \<Rightarrow> bool \<Rightarrow> number \<times> nat \<Rightarrow> jsstring" where
  "keywordResponse L currency k lastMonthMatch totals =
     (if 0 < snd totals
      then js ''You spent '' @ formatCurrency L (nabs (fst totals)) currency @ js '' on \"''
           @ k @ js ''\" '' @ timeFrame lastMonthMatch @ js '' across ''
           @ digitsOf (snd totals) @ js '' transactions.''
      else js ''I couldn't find any spending related to \"'' @ k @ js ''\" ''
           @ timeFrame lastMonthMatch @ js ''.'')"

definition spendingResponse ::
  "library \<Rightarrow> jsstring \<Rightarrow> jsstring option \<Rightarrow> bool \<Rightarrow> number \<times> nat \<Rightarrow> jsstring" where
  "spendingResponse L currency keyword lastMonthMatch totals =
     (case keyword of
        None \<Rightarrow> totalResponse L currency lastMonthMatch totals
      | Some k \<Rightarrow>
          if k = [] then totalResponse L currency lastMonthMatch totals
          else keywordResponse L currency k lastMonthMatch totals)"

definition querySpending ::
  "library \<Rightarrow> int \<Rightarrow> app_state \<Rightarrow> jsstring \<Rightarrow> (error + jsstring) \<times> app_state" where
  "querySpending L now st lowerCommand =
     (Inr (spendingResponse L (selectedCurrency st) (keywordOf lowerCommand)
             (includesJs lowerCommand (js ''last month''))
             (spendingTotals L (targetDate now (includesJs lowerCommand (js ''last month'')))
                (keywordOf lowerCommand) (transactions st))),
      st)"

subsection \<open>Adding a transaction\<close>

definition isExpense :: "jsstring \<Rightarrow> bool" where
  "isExpense lowerCommand =
     (includesJs lowerCommand (js ''expense'') \<or> includesJs lowerCommand (js ''spent''))"

definition descriptionOf :: "jsstring \<Rightarrow> jsstring" where
  "descriptionOf lowerCommand =
     orDefault (map_option trim (group1 False descriptionRe lowerCommand)) (js ''Transaction'')"

text \<open>The chain of tests on the date phrase, in the order of the source; the default
  is the current date.\<close>

definition resolveDate :: "library \<Rightarrow> int \<Rightarrow> jsstring \<Rightarrow> jsdate" where
  "resolveDate L now dateStr =
     (if dateStr = js ''today'' then Some now
      else if dateStr = js ''tomorrow'' then addDays (Some now) 1
      else if dateStr = js ''yesterday'' then addDays (Some now) (- 1)
      else if startsWith dateStr (js ''next week'')
        then addDays (startOfWeek (addDays (Some now) 7) 1) 4
      else if startsWith dateStr (js ''last week'')
        then addDays (startOfWeek (addDays (Some now) (- 7)) 1) 4
      else if dateStr = js ''next weekend'' then nextSaturday (Some now)
      else if dateStr = js ''last weekend'' then previousTuesday (startOfWeek (Some now) 1)
      else (case parseDateP L dateStr now of None \<Rightarrow> Some now | Some t \<Rightarrow> Some t))"

definition transactionDate :: "library \<Rightarrow> int \<Rightarrow> jsstring \<Rightarrow> jsdate" where
  "transactionDate L now lowerCommand =
     (case group1 False dateRe lowerCommand of
        None \<Rightarrow> Some now
      | Some s \<Rightarrow> if s = [] then Some now else resolveDate L now (toLowerCase s))"

definition finalAmount :: "jsstring \<Rightarrow> number" where
  "finalAmount lowerCommand =
     (if isExpense lowerCommand then nneg (amountVal lowerCommand) else amountVal lowerCommand)"

definition transactionGuidance :: jsstring where
  "transactionGuidance = js (''Sorry, I couldn't understand the amount or description for the ''
     @ ''transaction. Please try again, like 'add expense 500 for groceries tomorrow'.'')"

text \<open>
  The record built for the command. The two calls of \<open>format\<close> throw on an invalid date.
\<close>

definition newTransaction :: "library \<Rightarrow> int \<Rightarrow> jsstring \<Rightarrow> jsstring \<Rightarrow> error + transaction" where
  "newTransaction L now newId lowerCommand =
     (case format_yyyy_MM_dd (transactionDate L now lowerCommand) of
        Inl e \<Rightarrow> Inl e
      | Inr d \<Rightarrow>
          Inr \<lparr>date = d, description = descriptionOf lowerCommand,
               amount = finalAmount lowerCommand, category = js ''Uncategorized'',
               tx_id = newId\<rparr>)"

definition addTransaction ::
  "library \<Rightarrow> int \<Rightarrow> jsstring \<Rightarrow> app_state \<Rightarrow> jsstring \<Rightarrow> (error + jsstring) \<times> app_state" where
  "addTransaction L now newId st lowerCommand =
     (if nlt (Num 0) (amountVal lowerCommand) then
        (case newTransaction L now newId lowerCommand of
           Inl e \<Rightarrow> (Inl e, st)
         | Inr tx \<Rightarrow>
             (case format_MMM_d (transactionDate L now lowerCommand) of
                Inl e \<Rightarrow> (Inl e, handleEditTransaction st tx)
              | Inr day \<Rightarrow>
                  (Inr (js ''OK, added ''
                        @ (if isExpense lowerCommand then js ''expense'' else js ''income'')
                        @ js '' of ''
                        @ formatCurrency L (nabs (finalAmount lowerCommand)) (selectedCurrency st)
                        @ js '' for \"'' @ descriptionOf lowerCommand @ js ''\" on '' @ day
                        @ js ''.''),
                   handleEditTransaction st tx)))
      else (Inr transactionGuidance, st))"

subsection \<open>The dispatch\<close>

definition capabilitySummary :: jsstring where
  "capabilitySummary = js (''Sorry, I can currently help with adding goals (e.g., 'add goal Car ''
     @ ''for 100k by 2026-12-31'), adding transactions (e.g., 'add expense 500 for groceries ''
     @ ''tomorrow'), or analyzing spending (e.g., 'how much did I spend on fuel last month?').'')"

definition appendChat :: "sender_kind \<Rightarrow> jsstring \<Rightarrow> app_state \<Rightarrow> app_state" where
  "appendChat who txt st = st\<lparr>chatHistory := chatHistory st @ [\<lparr>sender = who, message = txt\<rparr>]\<rparr>"

text \<open>The chain of tests on the lower-cased command; the first that holds decides.\<close>

definition runCommand ::
  "library \<Rightarrow> int \<Rightarrow> jsstring \<Rightarrow> app_state \<Rightarrow> jsstring \<Rightarrow> (error + jsstring) \<times> app_state" where
  "runCommand L now newId st lowerCommand =
     (if includesJs lowerCommand (js ''create goal'') \<or> includesJs lowerCommand (js ''add goal'')
      then createGoal L now newId st lowerCommand
      else if includesJs lowerCommand (js ''how much'')
              \<and> (includesJs lowerCommand (js ''spend'') \<or> includesJs lowerCommand (js ''spent''))
      then querySpending L now st lowerCommand
      else if includesJs lowerCommand (js ''add expense'')
              \<or> includesJs lowerCommand (js ''add income'')
              \<or> includesJs lowerCommand (js ''spent'')
              \<or> includesJs lowerCommand (js ''received'')
      then addTransaction L now newId st lowerCommand
      else (Inr capabilitySummary, st))"

text \<open>
  \<open>handleAiCommand\<close>: the user's turn is logged, the command runs, and the answer is logged
  and returned. An exception leaves the answer out of the log. \<open>now\<close> is the value of
  \<open>new Date()\<close> during the call and \<open>newId\<close> the result of \<open>uuidv4()\<close>; the delay
  before the answer is left out.
\<close>

definition handleAiCommand ::
  "library \<Rightarrow> int \<Rightarrow> jsstring \<Rightarrow> app_state \<Rightarrow> jsstring \<Rightarrow> (error + jsstring) \<times> app_state" where
  "handleAiCommand L now newId st command =
     (case runCommand L now newId (appendChat User command st) (toLowerCase command) of
        (Inl e, st1) \<Rightarrow> (Inl e, st1)
      | (Inr responseText, st1) \<Rightarrow> (Inr responseText, appendChat Ai responseText st1))"

section \<open>Statement importer (handleFileChange, Settings.tsx)\<close>

text \<open>
  A row as the CSV parser delivers it under \<open>header: true\<close>: the four columns the importer
  reads (booking date, description, amount, currency), each a string, or \<open>None\<close> when the
  row does not have the column. The source reads them under the Czech header names of one
  bank's export. Decoding and the parsing of the CSV text are the parser's.
\<close>

record csv_row =
  rowDate :: "jsstring option"
  rowDescription :: "jsstring option"
  rowAmount :: "jsstring option"
  rowCurrency :: "jsstring option"

text \<open>The date, split at the dots and put together again in the order 2, 1, 0.\<close>

definition isoDate :: "jsstring \<Rightarrow> jsstring" where
  "isoDate d =
     templatePart (splitOn 46 d) 2 @ js ''-'' @ templatePart (splitOn 46 d) 1 @ js ''-''
     @ templatePart (splitOn 46 d) 0"

text \<open>\<open>parseFloat(amountStr.replace(/[\s\u00A0]/g, "").replace(",", "."))\<close>\<close>

definition cleanedAmountStr :: "jsstring \<Rightarrow> jsstring" where
  "cleanedAmountStr amountStr =
     replaceFirst 44 46 (filter (\<lambda>c. \<not> (isWhiteSpace c \<or> c = 160)) amountStr)"

definition importAmount :: "jsstring \<Rightarrow> number" where
  "importAmount amountStr = parseFloat (cleanedAmountStr amountStr)"

text \<open>
  The body of \<open>results.data.forEach\<close>: the record pushed for a row, or \<open>None\<close> when the
  row is passed over (the source then only writes a warning to the console).
\<close>

definition importRow :: "jsstring \<Rightarrow> csv_row \<Rightarrow> tx_data option" where
  "importRow selectedCur row =
     (case rowDate row of
        None \<Rightarrow> None
      | Some d \<Rightarrow>
          (case rowDescription row of
             None \<Rightarrow> None
           | Some ds \<Rightarrow>
               (case rowAmount row of
                  None \<Rightarrow> None
                | Some a \<Rightarrow>
                    if d \<noteq> [] \<and> ds \<noteq> [] \<and> a \<noteq> [] \<and> rowCurrency row = Some selectedCur
                    then (if \<not> isNaN (importAmount a)
                          then Some \<lparr>date = isoDate d, description = ds,
                                     amount = importAmount a,
                                     category = js ''Uncategorized''\<rparr>
                          else None)
                    else None)))"

definition pushRow :: "jsstring \<Rightarrow> tx_data list \<Rightarrow> csv_row \<Rightarrow> tx_data list" where
  "pushRow selectedCur txs row =
     (case importRow selectedCur row of None \<Rightarrow> txs | Some t \<Rightarrow> txs @ [t])"

definition importRows :: "jsstring \<Rightarrow> csv_row list \<Rightarrow> tx_data list" where
  "importRows selectedCur rows = foldl (pushRow selectedCur) [] rows"

text \<open>
  The \<open>complete\<close> callback: the records go to \<open>onImportTransactions\<close>, which is
  \<open>handleImportTransactions\<close>, and the alert reports how many were imported.
\<close>

definition importAlert :: "tx_data list \<Rightarrow> jsstring" where
  "importAlert txs = js ''Imported '' @ digitsOf (length txs) @ js '' transactions.''"

definition handleFileChange ::
  "(nat \<Rightarrow> jsstring) \<Rightarrow> app_state \<Rightarrow> csv_row list \<Rightarrow> app_state \<times> jsstring" where
  "handleFileChange uuid st rows =
     (handleImportTransactions uuid st (importRows (selectedCurrency st) rows),
      importAlert (importRows (selectedCurrency st) rows))"

section \<open>A concrete library for the examples\<close>

text \<open>
  The examples need the library functions at a few inputs. \<open>parseISODate\<close> reads the form
  \<open>yyyy-MM-dd\<close>, which is what the program writes, as local midnight, and takes every other
  text as invalid; \<open>parseShortDate\<close> reads \<open>M/d/y\<close>, the short date of the default locale;
  \<open>formatLong\<close> prints \<open>MMMM do, y\<close>; \<open>fallbackCurrency\<close> is the fallback of
  \<open>formatCurrency\<close> in App.tsx, \<open>amount.toFixed(2)\<close> followed by the currency code.
\<close>

definition daysInMonth :: "int \<Rightarrow> int \<Rightarrow> int" where
  "daysInMonth y m = makeDay y m 1 - makeDay y (m - 1) 1"

definition civilDate :: "int \<Rightarrow> int \<Rightarrow> int \<Rightarrow> jsdate" where
  "civilDate y m d =
     (if 1 \<le> m \<and> m \<le> 12 \<and> 1 \<le> d \<and> d \<le> daysInMonth y m then Some (midnight y m d) else None)"

definition parseISODate :: "jsstring \<Rightarrow> jsdate" where
  "parseISODate s =
     (if length s = 10 \<and> list_all isDigit (take 4 s) \<and> take 1 (drop 4 s) = js ''-''
         \<and> list_all isDigit (take 2 (drop 5 s)) \<and> take 1 (drop 7 s) = js ''-''
         \<and> list_all isDigit (drop 8 s)
      then civilDate (int (digitsValue (take 4 s))) (int (digitsValue (take 2 (drop 5 s))))
             (int (digitsValue (drop 8 s)))
      else None)"

definition isNumberText :: "nat \<Rightarrow> jsstring \<Rightarrow> bool" where
  "isNumberText n s = (s \<noteq> [] \<and> length s \<le> n \<and> list_all isDigit s)"

definition parseShortDate :: "jsstring \<Rightarrow> int \<Rightarrow> jsdate" where
  "parseShortDate s reference =
     (case splitOn 47 s of
        [m, d, y] \<Rightarrow>
          if isNumberText 2 m \<and> isNumberText 2 d \<and> isNumberText 4 y
          then civilDate (int (digitsValue y)) (int (digitsValue m)) (int (digitsValue d))
          else None
      | _ \<Rightarrow> None)"

definition monthNames :: "string list" where
  "monthNames = [''January'', ''February'', ''March'', ''April'', ''May'', ''June'', ''July'',
                 ''August'', ''September'', ''October'', ''November'', ''December'']"

definition ordinalSuffix :: "nat \<Rightarrow> string" where
  "ordinalSuffix n =
     (if 10 < n mod 100 \<and> n mod 100 < 20 then ''th''
      else if n mod 10 = 1 then ''st''
      else if n mod 10 = 2 then ''nd''
      else if n mod 10 = 3 then ''rd''
      else ''th'')"

definition formatLong :: "int \<Rightarrow> jsstring" where
  "formatLong t =
     js (monthNames ! nat (getMonth t)) @ js '' '' @ digitsOf (nat (getDate t))
     @ js (ordinalSuffix (nat (getDate t))) @ js '', '' @ digitsOf (yearOfEra (getFullYear t))"

text \<open>\<open>toFixed(2)\<close>, for values below \<open>10^21\<close>: rounded to the nearest hundredth, a tie
  going up in magnitude.\<close>

definition hundredths :: "rat \<Rightarrow> nat" where
  "hundredths r = nat \<lfloor>\<bar>r\<bar> * 100 + 1 / 2\<rfloor>"

definition toFixed2 :: "number \<Rightarrow> jsstring" where
  "toFixed2 x =
     (case x of
        Num r \<Rightarrow>
          (if r < 0 then js ''-'' else []) @ digitsOf (hundredths r div 100) @ js ''.''
          @ padStart0 2 (digitsOf (hundredths r mod 100))
      | PosInf \<Rightarrow> js ''Infinity''
      | NegInf \<Rightarrow> js ''-Infinity''
      | NaN \<Rightarrow> js ''NaN'')"

definition fallbackCurrency :: "number \<Rightarrow> jsstring \<Rightarrow> jsstring" where
  "fallbackCurrency x currencyCode = toFixed2 x @ js '' '' @ currencyCode"

definition plainLibrary :: library where
  "plainLibrary = \<lparr>parseISO = parseISODate, parseDateP = parseShortDate,
                    formatPPP = formatLong, formatCurrency = fallbackCurrency\<rparr>"

definition emptyState :: app_state where
  "emptyState = \<lparr>transactions = [], goals = [], predictedIncome = [],
                  selectedCurrency = js ''CZK'', chatHistory = []\<rparr>"

section \<open>The trailing window as the specification words it\<close>

text \<open>
  The specification describes the window of the savings rate as the three full calendar
  months that end with the month before the current one. \<open>trailingAverage_spec\<close> follows
  these words: it is \<open>averageMonthlySavings\<close> with the transactions from the first day of
  the current month on left out.
\<close>

definition dateLt :: "jsdate \<Rightarrow> jsdate \<Rightarrow> bool" where
  "dateLt a b =
     (case a of None \<Rightarrow> False | Some x \<Rightarrow> (case b of None \<Rightarrow> False | Some y \<Rightarrow> x < y))"

definition inTrailingWindow_spec :: "library \<Rightarrow> int \<Rightarrow> transaction \<Rightarrow> bool" where
  "inTrailingWindow_spec L now t =
     (dateGe (parseISO L (date t)) (threeMonthsAgo now)
      \<and> dateLt (parseISO L (date t)) (startOfMonth (Some now)))"

definition trailingWindow_spec :: "library \<Rightarrow> int \<Rightarrow> transaction list \<Rightarrow> transaction list" where
  "trailingWindow_spec L now ts = filter (inTrailingWindow_spec L now) ts"

definition trailingAverage_spec :: "library \<Rightarrow> int \<Rightarrow> transaction list \<Rightarrow> number" where
  "trailingAverage_spec L now ts =
     ndiv (nadd (sumAmounts (filter isIncome (trailingWindow_spec L now ts)))
                (sumAmounts (filter isSpending (trailingWindow_spec L now ts))))
          (Num 3)"

section \<open>Intent classification as the specification words it\<close>

text \<open>
  The specification names four intents and classifies a command by an ordered list of
  keyword tests, the first that holds deciding. \<open>classify_spec\<close> follows these words and
  \<open>dispatch_spec\<close> runs the branch of the intent found.
\<close>

datatype intent = CreateGoal | QuerySpending | AddTransaction | Unknown

definition mentionsGoal :: "jsstring \<Rightarrow> bool" where
  "mentionsGoal l = (includesJs l (js ''create goal'') \<or> includesJs l (js ''add goal''))"

definition asksSpending :: "jsstring \<Rightarrow> bool" where
  "asksSpending l =
     (includesJs l (js ''how much'')
      \<and> (includesJs l (js ''spend'') \<or> includesJs l (js ''spent'')))"

definition mentionsTransaction :: "jsstring \<Rightarrow> bool" where
  "mentionsTransaction l =
     (includesJs l (js ''add expense'') \<or> includesJs l (js ''add income'')
      \<or> includesJs l (js ''spent'') \<or> includesJs l (js ''received''))"

definition intentRules_spec :: "((jsstring \<Rightarrow> bool) \<times> intent) list" where
  "intentRules_spec =
     [(mentionsGoal, CreateGoal), (asksSpending, QuerySpending),
      (mentionsTransaction, AddTransaction)]"

definition classify_spec :: "jsstring \<Rightarrow> intent" where
  "classify_spec l =
     (case find (\<lambda>rule. fst rule l) intentRules_spec of
        None \<Rightarrow> Unknown
      | Some rule \<Rightarrow> snd rule)"

definition dispatch_spec ::
  "library \<Rightarrow> int \<Rightarrow> jsstring \<Rightarrow> app_state \<Rightarrow> jsstring \<Rightarrow> (error + jsstring) \<times> app_state" where
  "dispatch_spec L now newId st l =
     (case classify_spec l of
        CreateGoal \<Rightarrow> createGoal L now newId st l
      | QuerySpending \<Rightarrow> querySpending L now st l
      | AddTransaction \<Rightarrow> addTransaction L now newId st l
      | Unknown \<Rightarrow> (Inr capabilitySummary, st))"

section \<open>Row acceptance as the specification words it\<close>

text \<open>
  A row is accepted when its four fields are present, its currency is the selected one and
  its amount can be parsed.
\<close>

definition fieldPresent :: "jsstring option \<Rightarrow> bool" where
  "fieldPresent x = (case x of None \<Rightarrow> False | Some s \<Rightarrow> s \<noteq> [])"

definition amountParsable :: "jsstring option \<Rightarrow> bool" where
  "amountParsable x = (case x of None \<Rightarrow> False | Some a \<Rightarrow> \<not> isNaN (importAmount a))"

definition acceptable_spec :: "jsstring \<Rightarrow> csv_row \<Rightarrow> bool" where
  "acceptable_spec selectedCur row =
     (fieldPresent (rowDate row) \<and> fieldPresent (rowDescription row)
      \<and> fieldPresent (rowAmount row) \<and> fieldPresent (rowCurrency row)
      \<and> rowCurrency row = Some selectedCur \<and> amountParsable (rowAmount row))"

section \<open>Example inputs\<close>

text \<open>Noon of 2025-01-10 and of 2025-03-31, and a ledger with one expense in February
  2025 and one in March 2025.\<close>

definition jan10 :: int where
  "jan10 = midnight 2025 1 10 + 43200000"

definition march31 :: int where
  "march31 = midnight 2025 3 31 + 43200000"

definition fuelLedger :: app_state where
  "fuelLedger = emptyState\<lparr>transactions :=
     [\<lparr>date = js ''2025-02-10'', description = js ''fuel'', amount = Num (- 1000),
       category = js ''Uncategorized'', tx_id = js ''t1''\<rparr>,
      \<lparr>date = js ''2025-03-05'', description = js ''food'', amount = Num (- 200),
       category = js ''Uncategorized'', tx_id = js ''t2''\<rparr>]\<rparr>"

text \<open>Noon of 2025-04-15, a ledger with one income of 300 dated 2025-04-10, and a goal
  that still needs 1000.\<close>

definition april15 :: int where
  "april15 = midnight 2025 4 15 + 43200000"

definition aprilIncome :: transaction where
  "aprilIncome = \<lparr>date = js ''2025-04-10'', description = js ''bonus'', amount = Num 300,
                   category = js ''Uncategorized'', tx_id = js ''t3''\<rparr>"

definition carGoal :: goal where
  "carGoal = \<lparr>goal_id = js ''g1'', name = js ''car'', targetAmount = Num 1000,
               currentAmount = Num 0, deadline = None, estimatedCompletionDate = None\<rparr>"

definition aprilState :: app_state where
  "aprilState = emptyState\<lparr>transactions := [aprilIncome], goals := [carGoal]\<rparr>"

text \<open>Two rows of a statement, one in euro and one in Czech crowns, and a supply of ids.\<close>

definition euroRow :: csv_row where
  "euroRow = \<lparr>rowDate = Some (js ''10.01.2025''), rowDescription = Some (js ''Hotel''),
               rowAmount = Some (js ''-120,00''), rowCurrency = Some (js ''EUR'')\<rparr>"

definition crownRow :: csv_row where
  "crownRow = \<lparr>rowDate = Some (js ''11.01.2025''), rowDescription = Some (js ''Potraviny''),
                rowAmount = Some (js ''-1 234,50''), rowCurrency = Some (js ''CZK'')\<rparr>"

definition sampleUuid :: "nat \<Rightarrow> jsstring" where
  "sampleUuid i = js ''id-'' @ digitsOf i"

definition potraviny :: tx_data where
  "potraviny = \<lparr>date = js ''2025-01-11'', description = js ''Potraviny'',
                 amount = Num (- (2469 / 2)), category = js ''Uncategorized''\<rparr>"

section \<open>Evaluation rules\<close>

lemma digitsOf_0: "digitsOf 0 = [48]"
  by (simp add: digitsOf.simps)

lemma digitsOf_1: "digitsOf (Suc 0) = [49]"
  by (simp add: digitsOf.simps)

lemma digitsOf_numeral:
  "digitsOf (numeral k) =
     (if (numeral k :: nat) < 10 then [48 + numeral k]
      else digitsOf (numeral k div 10) @ [48 + numeral k mod 10])"
  by (subst digitsOf.simps) simp

lemma replicate_numeral: "replicate (numeral k) x = x # replicate (pred_numeral k) x"
  by (simp add: numeral_eq_Suc)

lemma floor_fraction: "\<lfloor>(numeral a :: rat) / numeral b\<rfloor> = numeral a div numeral b"
  using floor_divide_of_int_eq [of "numeral a" "numeral b", where ?'a = rat] by simp

lemma floor_neg_fraction:
  "\<lfloor>- ((numeral a :: rat) / numeral b)\<rfloor> = (- numeral a) div numeral b"
  using floor_divide_of_int_eq [of "- numeral a" "numeral b", where ?'a = rat] by simp

lemma ceiling_fraction: "\<lceil>(numeral a :: rat) / numeral b\<rceil> = - ((- numeral a) div numeral b)"
  unfolding ceiling_def by (simp add: floor_neg_fraction)

lemma ceiling_neg_fraction:
  "\<lceil>- ((numeral a :: rat) / numeral b)\<rceil> = - (numeral a div numeral b)"
  unfolding ceiling_def by (simp add: floor_fraction)

lemmas string_ev = js_def wsRanges_def isWhiteSpace_def isDigit_def lowerUnit_def
  toLowerCase_def startsWith_def trim_def templatePart_def digitsOf_0 digitsOf_1
  digitsOf_numeral replicate_numeral padStart0_def

lemmas regex_ev = canon_def swapCase_def inClass_def isLineTerminator_def decr_def group1_def
  words_def digit_def ropt_def rstar_def rplus_def lazyStar_def

lemmas number_ev = nsub_def neq_def nle_def isNaN_def nmax_def digitsValue_def pow10_def
  splitSign_def parseExponent_def parseFloat_def floor_fraction floor_neg_fraction
  ceiling_fraction ceiling_neg_fraction

lemmas date_ev = msPerDay_def timeClip_def daysFromCivil_def daysFromShifted_def
  civilFromDays_def civilFromDoe_def civilFromYoe_def civilFromDoy_def civilFromMp_def
  dayNumber_def timeWithinDay_def getFullYear_def getMonth_def getDate_def getDay_def
  makeDay_def makeDate_def setDate_def setMonth_def setMonth2_def setFullYear_def setHours_def
  truncInt_def addDays_def addMonths_def subMonths_def startOfMonth_def endOfMonth_def
  startOfWeek_def nextDay_def previousDay_def nextSaturday_def previousTuesday_def dateGe_def
  dateLe_def isValid_def weekDiff_def wrapDelta_def yearOfEra_def format_yyyy_MM_dd_def
  monthAbbreviations_def format_MMM_d_def toISOString_def midnight_def isoYear_def isoTime_def
  pad2_def

lemmas pattern_ev = decimalsRe_def amountCore_def goalSeparators_def txSeparators_def
  nameRe_def goalAmountRe_def deadlineRe_def keywordRe_def txAmountRe_def descriptionRe_def
  weekdayRe_def dateSepRe_def dateRe_def

lemmas command_ev = orDefault_def truthy_def cleanAmount_def amountOf_def goalAmount_def
  amountVal_def goalName_def goalDeadline_def deadlineText_def goalGuidance_def createGoal_def
  targetDate_def keywordOf_def inMonth_def keywordMatches_def spendingStep_def
  spendingTotals_def timeFrame_def totalResponse_def keywordResponse_def spendingResponse_def
  querySpending_def isExpense_def descriptionOf_def resolveDate_def transactionDate_def
  finalAmount_def transactionGuidance_def newTransaction_def addTransaction_def
  capabilitySummary_def appendChat_def runCommand_def handleAiCommand_def handleAddGoal_def
  handleEditTransaction_def handleImportTransactions_def withId_def Let_def

lemmas library_ev = daysInMonth_def civilDate_def parseISODate_def isNumberText_def
  parseShortDate_def monthNames_def ordinalSuffix_def formatLong_def hundredths_def
  toFixed2_def fallbackCurrency_def plainLibrary_def emptyState_def

lemmas projection_ev = sumAmounts_def threeMonthsAgo_def isRecent_def isIncome_def
  isSpending_def recentTransactions_def totalRecentIncome_def totalRecentExpenses_def
  averageMonthlySavings_def remainingAmount_def setEstimate_def projectGoal_def
  projectGoals_def goalReactor_def dateLt_def inTrailingWindow_spec_def
  trailingWindow_spec_def trailingAverage_spec_def

lemmas import_ev = isoDate_def cleanedAmountStr_def importAmount_def importRow_def
  pushRow_def importRows_def importAlert_def handleFileChange_def

lemmas example_ev = jan10_def march31_def fuelLedger_def april15_def aprilIncome_def carGoal_def
  aprilState_def euroRow_def crownRow_def sampleUuid_def potraviny_def

lemmas spec_ev = mentionsGoal_def asksSpending_def mentionsTransaction_def intentRules_spec_def
  classify_spec_def dispatch_spec_def fieldPresent_def amountParsable_def acceptable_spec_def

section \<open>The ledger under the command interpreter\<close>

lemma replace_absent:
  "i \<notin> set (map tx_id ts) \<Longrightarrow> map (\<lambda>t. if tx_id t = i then u else t) ts = ts"
  by (induction ts) auto

lemma handleEditTransaction_fresh:
  "tx_id u \<notin> set (map tx_id (transactions st)) \<Longrightarrow> handleEditTransaction st u = st"
  by (simp add: handleEditTransaction_def replace_absent)

lemma newTransaction_id: "newTransaction L now newId lc = Inr tx \<Longrightarrow> tx_id tx = newId"
  by (auto simp: newTransaction_def split: sum.splits)

lemma addTransaction_ledger:
  "newId \<notin> set (map tx_id (transactions st)) \<Longrightarrow>
   transactions (snd (addTransaction L now newId st lc)) = transactions st"
  by (auto simp: addTransaction_def handleEditTransaction_fresh dest!: newTransaction_id
           split: sum.splits)

lemma createGoal_ledger: "transactions (snd (createGoal L now newId st lc)) = transactions st"
  by (simp add: createGoal_def handleAddGoal_def Let_def split: sum.splits)

lemma runCommand_ledger:
  "newId \<notin> set (map tx_id (transactions st)) \<Longrightarrow>
   transactions (snd (runCommand L now newId st lc)) = transactions st"
  by (simp add: runCommand_def createGoal_ledger addTransaction_ledger querySpending_def)

text \<open>
  Claim C1. A command of the AddTransaction kind with a positive amount, such as
  "add expense 500 for groceries tomorrow" on 2025-01-10, should leave a transaction with
  amount -500, description "groceries" and date 2025-01-11 in the ledger. The interpreter
  builds that record under the new id and passes it to \<open>handleEditTransaction\<close>, which only
  replaces the records that already carry the id: whenever the new id is not yet in the
  ledger, as an id from \<open>uuidv4\<close> is, the ledger after the call is the ledger before it,
  whatever the command.
\<close>

theorem C1_ledger_unchanged_by_command:
  "newId \<notin> set (map tx_id (transactions st)) \<Longrightarrow>
   transactions (snd (handleAiCommand L now newId st command)) = transactions st"
proof -
  assume fresh: "newId \<notin> set (map tx_id (transactions st))"
  let ?st0 = "appendChat User command st"
  have "transactions ?st0 = transactions st"
    by (simp add: appendChat_def)
  with fresh have "transactions (snd (runCommand L now newId ?st0 (toLowerCase command)))
                   = transactions st"
    using runCommand_ledger [of newId ?st0 L now "toLowerCase command"] by simp
  then show ?thesis
    by (cases "runCommand L now newId ?st0 (toLowerCase command)")
       (auto simp: handleAiCommand_def appendChat_def split: sum.splits)
qed

theorem C1_ledger_unchanged_by_command_witness:
  "js ''id-1'' \<notin> set (map tx_id (transactions emptyState))
   \<and> newTransaction plainLibrary jan10 (js ''id-1'')
        (toLowerCase (js ''add expense 500 for groceries tomorrow''))
      = Inr \<lparr>date = js ''2025-01-11'', description = js ''groceries'', amount = Num (- 500),
             category = js ''Uncategorized'', tx_id = js ''id-1''\<rparr>
   \<and> fst (handleAiCommand plainLibrary jan10 (js ''id-1'') emptyState
             (js ''add expense 500 for groceries tomorrow''))
      = Inr (js ''OK, added expense of 500.00 CZK for \"groceries\" on Jan 11.'')
   \<and> transactions (snd (handleAiCommand plainLibrary jan10 (js ''id-1'') emptyState
                           (js ''add expense 500 for groceries tomorrow''))) = []"
proof -
  have fresh: "js ''id-1'' \<notin> set (map tx_id (transactions emptyState))"
    by (simp add: emptyState_def)
  have built: "newTransaction plainLibrary jan10 (js ''id-1'')
        (toLowerCase (js ''add expense 500 for groceries tomorrow''))
      = Inr \<lparr>date = js ''2025-01-11'', description = js ''groceries'', amount = Num (- 500),
             category = js ''Uncategorized'', tx_id = js ''id-1''\<rparr>"
    by (simp add: string_ev regex_ev pattern_ev command_ev number_ev library_ev date_ev
                  example_ev)
  have answer: "fst (handleAiCommand plainLibrary jan10 (js ''id-1'') emptyState
             (js ''add expense 500 for groceries tomorrow''))
      = Inr (js ''OK, added expense of 500.00 CZK for \"groceries\" on Jan 11.'')"
    by (simp add: string_ev regex_ev pattern_ev command_ev number_ev library_ev date_ev
                  example_ev)
  have "transactions (snd (handleAiCommand plainLibrary jan10 (js ''id-1'') emptyState
                           (js ''add expense 500 for groceries tomorrow'')))
        = transactions emptyState"
    using C1_ledger_unchanged_by_command [OF fresh] .
  then have ledger: "transactions (snd (handleAiCommand plainLibrary jan10 (js ''id-1'')
                        emptyState (js ''add expense 500 for groceries tomorrow''))) = []"
    by (simp add: emptyState_def)
  from fresh built answer ledger show ?thesis by blast
qed

text \<open>
  Claim C4. "add goal New Car for 100000" on an empty goal list should create one goal
  named "New Car" with target 100000. The name is cut out of the lower-cased command, and
  the amount pattern tries \<open>\d{1,3}\<close> with its groups of three before \<open>\d+\<close>, so that it
  stops after "100": the goal created is "new car" with target 100, and the answer prints
  that amount.
\<close>

theorem C4_add_goal_new_car:
  "handleAiCommand plainLibrary jan10 (js ''id-1'') emptyState (js ''add goal New Car for 100000'')
   = (Inr (js ''OK, I've added the goal \"new car\" for 100.00 CZK. I'll estimate the completion date.''),
      emptyState\<lparr>goals :=
          [\<lparr>goal_id = js ''id-1'', name = js ''new car'', targetAmount = Num 100,
            currentAmount = Num 0, deadline = None, estimatedCompletionDate = None\<rparr>],
        chatHistory :=
          [\<lparr>sender = User, message = js ''add goal New Car for 100000''\<rparr>,
           \<lparr>sender = Ai, message = js ''OK, I've added the goal \"new car\" for 100.00 CZK. I'll estimate the completion date.''\<rparr>]\<rparr>)"
  by (simp add: string_ev regex_ev pattern_ev command_ev number_ev library_ev example_ev)

text \<open>
  Claim C5. A spending query with "last month" should sum the expenses of the calendar
  month before the current one. The month is found by \<open>setMonth(getMonth() - 1)\<close>, which
  keeps the day of the month: on 2025-03-31 the date becomes February 31st, that is
  2025-03-03, and the expenses summed are those of March (200), not those of February (1000).
\<close>

theorem C5_last_month_on_march_31:
  "targetDate march31 True = Some (midnight 2025 3 3 + 43200000)
   \<and> fst (handleAiCommand plainLibrary march31 (js ''id-1'') fuelLedger
            (js ''How much did I spend last month''))
     = Inr (js ''You spent a total of 200.00 CZK last month.'')"
  by (simp add: string_ev regex_ev pattern_ev command_ev number_ev library_ev date_ev
                example_ev)

section \<open>Goal projection\<close>

lemma projectGoal_again:
  "projectGoal L now ts g = Inr g' \<Longrightarrow> projectGoal L now ts g' = Inr g'"
  by (auto simp: projectGoal_def setEstimate_def remainingAmount_def split: if_splits sum.splits)

lemma projectGoal_frame:
  "projectGoal L now ts g = Inr g' \<Longrightarrow>
   goal_id g' = goal_id g \<and> name g' = name g \<and> targetAmount g' = targetAmount g
   \<and> currentAmount g' = currentAmount g \<and> deadline g' = deadline g"
  by (auto simp: projectGoal_def setEstimate_def split: if_splits sum.splits)

lemma mapE_again:
  "(\<And>x y. f x = Inr y \<Longrightarrow> f y = Inr y) \<Longrightarrow> mapE f xs = Inr ys \<Longrightarrow> mapE f ys = Inr ys"
proof (induction xs arbitrary: ys)
  case Nil
  then show ?case by simp
next
  case (Cons x xs)
  from Cons.prems(2) obtain y zs where fx: "f x = Inr y" and rest: "mapE f xs = Inr zs"
    and ys: "ys = y # zs"
    by (auto split: sum.splits)
  have "f y = Inr y" using Cons.prems(1) fx .
  moreover have "mapE f zs = Inr zs" using Cons.IH Cons.prems(1) rest by blast
  ultimately show ?case by (simp add: ys)
qed

lemma mapE_length: "mapE f xs = Inr ys \<Longrightarrow> length ys = length xs"
  by (induction xs arbitrary: ys) (auto split: sum.splits)

lemma mapE_nth: "mapE f xs = Inr ys \<Longrightarrow> i < length xs \<Longrightarrow> f (xs ! i) = Inr (ys ! i)"
proof (induction xs arbitrary: ys i)
  case Nil
  then show ?case by simp
next
  case (Cons x xs)
  from Cons.prems(1) obtain y zs where fx: "f x = Inr y" and rest: "mapE f xs = Inr zs"
    and ys: "ys = y # zs"
    by (auto split: sum.splits)
  show ?case
  proof (cases i)
    case 0
    then show ?thesis by (simp add: fx ys)
  next
    case (Suc j)
    then show ?thesis using Cons.IH [OF rest, of j] Cons.prems(2) by (simp add: ys)
  qed
qed

text \<open>
  Claim C8. \<open>projectGoals\<close> is idempotent for a fixed reference time: projecting the
  projected goals gives the projected goals again. When the first projection throws, so
  does the composition.
\<close>

theorem C8_projectGoals_idempotent:
  "(case projectGoals L gs ts now of
      Inl e \<Rightarrow> Inl e
    | Inr gs' \<Rightarrow> projectGoals L gs' ts now)
   = projectGoals L gs ts now"
proof (cases "projectGoals L gs ts now")
  case (Inl e)
  then show ?thesis by simp
next
  case (Inr gs')
  then have "mapE (projectGoal L now ts) gs' = Inr gs'"
    unfolding projectGoals_def by (rule mapE_again [rotated]) (rule projectGoal_again)
  then show ?thesis using Inr by (simp add: projectGoals_def)
qed

theorem C8_projectGoals_idempotent_witness:
  "projectGoals plainLibrary [carGoal] [aprilIncome] april15
     = Inr [carGoal\<lparr>estimatedCompletionDate := Some (js ''2026-02-15T12:00:00.000Z'')\<rparr>]
   \<and> projectGoals plainLibrary
         [carGoal\<lparr>estimatedCompletionDate := Some (js ''2026-02-15T12:00:00.000Z'')\<rparr>]
         [aprilIncome] april15
     = Inr [carGoal\<lparr>estimatedCompletionDate := Some (js ''2026-02-15T12:00:00.000Z'')\<rparr>]"
proof -
  have once: "projectGoals plainLibrary [carGoal] [aprilIncome] april15
     = Inr [carGoal\<lparr>estimatedCompletionDate := Some (js ''2026-02-15T12:00:00.000Z'')\<rparr>]"
    by (simp add: projection_ev string_ev number_ev date_ev library_ev example_ev)
  show ?thesis
    using C8_projectGoals_idempotent [where L = plainLibrary and gs = "[carGoal]"
            and ts = "[aprilIncome]" and now = april15]
    by (simp add: once)
qed

text \<open>
  Claim C9. The recomputation of the goal estimates changes at most the estimated
  completion date of each goal: the id, the name, the target and current amounts and the
  deadline stay, the goals keep their number and order, and the transaction list and the
  rest of the state are not written.
\<close>

theorem C9_goalReactor_frame:
  assumes "goalReactor L now st = Inr st'"
  shows "transactions st' = transactions st
       \<and> predictedIncome st' = predictedIncome st
       \<and> selectedCurrency st' = selectedCurrency st
       \<and> chatHistory st' = chatHistory st
       \<and> projectGoals L (goals st) (transactions st) now = Inr (goals st')
       \<and> length (goals st') = length (goals st)
       \<and> (\<forall>i < length (goals st).
             goal_id (goals st' ! i) = goal_id (goals st ! i)
           \<and> name (goals st' ! i) = name (goals st ! i)
           \<and> targetAmount (goals st' ! i) = targetAmount (goals st ! i)
           \<and> currentAmount (goals st' ! i) = currentAmount (goals st ! i)
           \<and> deadline (goals st' ! i) = deadline (goals st ! i))"
proof -
  from assms obtain updatedGoals
    where proj: "projectGoals L (goals st) (transactions st) now = Inr updatedGoals"
      and st': "st' = (if updatedGoals \<noteq> goals st then st\<lparr>goals := updatedGoals\<rparr> else st)"
    by (auto simp: goalReactor_def split: sum.splits)
  have goals': "goals st' = updatedGoals"
    by (simp add: st')
  have m: "mapE (projectGoal L now (transactions st)) (goals st) = Inr updatedGoals"
    using proj by (simp add: projectGoals_def)
  have len: "length updatedGoals = length (goals st)"
    using m by (rule mapE_length)
  have fields: "goal_id (updatedGoals ! i) = goal_id (goals st ! i)
           \<and> name (updatedGoals ! i) = name (goals st ! i)
           \<and> targetAmount (updatedGoals ! i) = targetAmount (goals st ! i)
           \<and> currentAmount (updatedGoals ! i) = currentAmount (goals st ! i)
           \<and> deadline (updatedGoals ! i) = deadline (goals st ! i)"
    if "i < length (goals st)" for i
    using mapE_nth [OF m that] by (rule projectGoal_frame)
  show ?thesis
    using proj len fields by (simp add: goals') (simp add: st')
qed

theorem C9_goalReactor_frame_witness:
  "goalReactor plainLibrary april15 aprilState
     = Inr (aprilState\<lparr>goals :=
              [carGoal\<lparr>estimatedCompletionDate := Some (js ''2026-02-15T12:00:00.000Z'')\<rparr>]\<rparr>)
   \<and> transactions (aprilState\<lparr>goals :=
              [carGoal\<lparr>estimatedCompletionDate := Some (js ''2026-02-15T12:00:00.000Z'')\<rparr>]\<rparr>)
       = transactions aprilState
   \<and> length (goals (aprilState\<lparr>goals :=
              [carGoal\<lparr>estimatedCompletionDate := Some (js ''2026-02-15T12:00:00.000Z'')\<rparr>]\<rparr>))
       = length (goals aprilState)"
proof -
  have run: "goalReactor plainLibrary april15 aprilState
     = Inr (aprilState\<lparr>goals :=
              [carGoal\<lparr>estimatedCompletionDate := Some (js ''2026-02-15T12:00:00.000Z'')\<rparr>]\<rparr>)"
    by (simp add: projection_ev string_ev number_ev date_ev library_ev example_ev)
  from C9_goalReactor_frame [OF run] run show ?thesis by blast
qed

text \<open>
  Claim C3, as the specification has it: the savings rate is taken over exactly the three
  full calendar months before the current month. On 2025-04-15, with a single income of
  300 dated 2025-04-10, the projection computes a monthly average of 100, where the window
  of the specification holds no transaction and gives 0.
\<close>

theorem C3_counterexample:
  "averageMonthlySavings plainLibrary april15 [aprilIncome] = Num 100
   \<and> trailingAverage_spec plainLibrary april15 [aprilIncome] = Num 0"
  by (simp add: projection_ev string_ev number_ev date_ev library_ev example_ev)

text \<open>
  Claim C3, amended. For every goal with an amount remaining, the projection computes the
  average monthly savings as the sum of the positive amounts plus the sum of the negative
  amounts, divided by 3, over the transactions whose date is valid and not before the
  first day of the month three months before the reference time. The window has no upper
  end: transactions dated in the current month of the reference time, or later, are part
  of it.
\<close>

theorem C3_window_from_three_months_ago:
  "recentTransactions L now ts = filter (isRecent L now) ts
   \<and> (isRecent L now t \<longleftrightarrow>
        (\<exists>d w. parseISO L (date t) = Some d
               \<and> startOfMonth (subMonths (Some now) (Num 3)) = Some w \<and> w \<le> d))
   \<and> averageMonthlySavings L now ts
       = ndiv (nadd (sumAmounts (filter isIncome (recentTransactions L now ts)))
                    (sumAmounts (filter isSpending (recentTransactions L now ts))))
              (Num 3)
   \<and> (\<not> neq (remainingAmount g) (Num 0) \<longrightarrow>
        projectGoal L now ts g
          = (if nle (averageMonthlySavings L now ts) (Num 0)
             then Inr (g\<lparr>estimatedCompletionDate := None\<rparr>)
             else setEstimate g
                    (toISOString
                       (addMonths (Some now)
                          (nceil (ndiv (remainingAmount g) (averageMonthlySavings L now ts)))))))"
proof -
  have window: "isRecent L now t \<longleftrightarrow>
        (\<exists>d w. parseISO L (date t) = Some d
               \<and> startOfMonth (subMonths (Some now) (Num 3)) = Some w \<and> w \<le> d)"
    by (auto simp: isRecent_def isValid_def dateGe_def threeMonthsAgo_def split: option.splits)
  show ?thesis
    using window
    by (simp add: recentTransactions_def averageMonthlySavings_def totalRecentIncome_def
                  totalRecentExpenses_def projectGoal_def)
qed

theorem C3_window_from_three_months_ago_witness:
  "parseISO plainLibrary (date aprilIncome) = Some (midnight 2025 4 10)
   \<and> startOfMonth (subMonths (Some april15) (Num 3)) = Some (midnight 2025 1 1)
   \<and> startOfMonth (Some april15) = Some (midnight 2025 4 1)
   \<and> midnight 2025 4 1 \<le> midnight 2025 4 10
   \<and> isRecent plainLibrary april15 aprilIncome
   \<and> \<not> neq (remainingAmount carGoal) (Num 0)
   \<and> averageMonthlySavings plainLibrary april15 [aprilIncome] = Num 100
   \<and> projectGoal plainLibrary april15 [aprilIncome] carGoal
       = Inr (carGoal\<lparr>estimatedCompletionDate := Some (js ''2026-02-15T12:00:00.000Z'')\<rparr>)"
proof -
  have d: "parseISO plainLibrary (date aprilIncome) = Some (midnight 2025 4 10)"
    by (simp add: string_ev number_ev date_ev library_ev example_ev)
  have w: "startOfMonth (subMonths (Some april15) (Num 3)) = Some (midnight 2025 1 1)"
    by (simp add: date_ev example_ev)
  have m: "startOfMonth (Some april15) = Some (midnight 2025 4 1)"
    by (simp add: date_ev example_ev)
  have le: "midnight 2025 1 1 \<le> midnight 2025 4 10" "midnight 2025 4 1 \<le> midnight 2025 4 10"
    by (simp_all add: date_ev)
  have r: "\<not> neq (remainingAmount carGoal) (Num 0)"
    by (simp add: projection_ev number_ev example_ev)
  have a: "averageMonthlySavings plainLibrary april15 [aprilIncome] = Num 100"
    by (simp add: projection_ev string_ev number_ev date_ev library_ev example_ev)
  have p: "projectGoal plainLibrary april15 [aprilIncome] carGoal
       = Inr (carGoal\<lparr>estimatedCompletionDate := Some (js ''2026-02-15T12:00:00.000Z'')\<rparr>)"
    by (simp add: projection_ev string_ev number_ev date_ev library_ev example_ev)
  have "isRecent plainLibrary april15 aprilIncome"
    using C3_window_from_three_months_ago [of plainLibrary april15 "[aprilIncome]" aprilIncome
            carGoal] d w le(1)
    by blast
  with d w m le(2) r a p show ?thesis by blast
qed

section \<open>Intent classification\<close>

lemma classify_cases:
  "classify_spec l =
     (if mentionsGoal l then CreateGoal
      else if asksSpending l then QuerySpending
      else if mentionsTransaction l then AddTransaction
      else Unknown)"
  by (simp add: classify_spec_def intentRules_spec_def)

lemma runCommand_dispatch: "runCommand L now newId st l = dispatch_spec L now newId st l"
  by (auto simp: runCommand_def dispatch_spec_def classify_cases mentionsGoal_def
                asksSpending_def mentionsTransaction_def)

text \<open>
  Claim C6. The intent of a command is found by the first test that holds, in the order
  goal creation, spending query, transaction, and is unknown otherwise; the tests are the
  keyword tests of the specification on the lower-cased text. The chain of tests in
  \<open>handleAiCommand\<close> runs the branch of the intent so classified, and a command of
  unknown intent gets the fixed summary of capabilities and leaves the transactions, the
  goals and the predicted income as they were.
\<close>

theorem C6_first_match_wins:
  "runCommand L now newId st l = dispatch_spec L now newId st l
   \<and> handleAiCommand L now newId st command
       = (case dispatch_spec L now newId (appendChat User command st) (toLowerCase command) of
            (Inl e, st1) \<Rightarrow> (Inl e, st1)
          | (Inr responseText, st1) \<Rightarrow> (Inr responseText, appendChat Ai responseText st1))
   \<and> (classify_spec l = CreateGoal \<longleftrightarrow> mentionsGoal l)
   \<and> (classify_spec l = QuerySpending \<longleftrightarrow> (\<not> mentionsGoal l \<and> asksSpending l))
   \<and> (classify_spec l = AddTransaction \<longleftrightarrow>
        (\<not> mentionsGoal l \<and> \<not> asksSpending l \<and> mentionsTransaction l))
   \<and> (classify_spec l = Unknown \<longleftrightarrow>
        (\<not> mentionsGoal l \<and> \<not> asksSpending l \<and> \<not> mentionsTransaction l))
   \<and> (classify_spec (toLowerCase command) = Unknown \<longrightarrow>
        handleAiCommand L now newId st command
          = (Inr capabilitySummary,
             appendChat Ai capabilitySummary (appendChat User command st))
        \<and> transactions (snd (handleAiCommand L now newId st command)) = transactions st
        \<and> goals (snd (handleAiCommand L now newId st command)) = goals st
        \<and> predictedIncome (snd (handleAiCommand L now newId st command)) = predictedIncome st)"
proof -
  have unknown: "handleAiCommand L now newId st command
          = (Inr capabilitySummary,
             appendChat Ai capabilitySummary (appendChat User command st))"
    if "classify_spec (toLowerCase command) = Unknown"
    using that
    by (simp add: handleAiCommand_def runCommand_dispatch dispatch_spec_def)
  have whole: "handleAiCommand L now newId st command
       = (case dispatch_spec L now newId (appendChat User command st) (toLowerCase command) of
            (Inl e, st1) \<Rightarrow> (Inl e, st1)
          | (Inr responseText, st1) \<Rightarrow> (Inr responseText, appendChat Ai responseText st1))"
    by (simp add: handleAiCommand_def runCommand_dispatch)
  have tests: "(classify_spec l = CreateGoal \<longleftrightarrow> mentionsGoal l)
   \<and> (classify_spec l = QuerySpending \<longleftrightarrow> (\<not> mentionsGoal l \<and> asksSpending l))
   \<and> (classify_spec l = AddTransaction \<longleftrightarrow>
        (\<not> mentionsGoal l \<and> \<not> asksSpending l \<and> mentionsTransaction l))
   \<and> (classify_spec l = Unknown \<longleftrightarrow>
        (\<not> mentionsGoal l \<and> \<not> asksSpending l \<and> \<not> mentionsTransaction l))"
    by (simp add: classify_cases)
  have frame: "transactions (snd (handleAiCommand L now newId st command)) = transactions st
        \<and> goals (snd (handleAiCommand L now newId st command)) = goals st
        \<and> predictedIncome (snd (handleAiCommand L now newId st command)) = predictedIncome st"
    if "classify_spec (toLowerCase command) = Unknown"
    by (simp add: unknown [OF that] appendChat_def)
  from runCommand_dispatch [of L now newId st l] whole tests unknown frame
  show ?thesis by blast
qed

theorem C6_first_match_wins_witness:
  "classify_spec (toLowerCase (js ''Hello there'')) = Unknown
   \<and> handleAiCommand plainLibrary jan10 (js ''id-1'') emptyState (js ''Hello there'')
       = (Inr capabilitySummary,
          appendChat Ai capabilitySummary (appendChat User (js ''Hello there'') emptyState))
   \<and> classify_spec (js ''i received 50 and spent 20, how much did i spend'') = QuerySpending"
proof -
  have u: "classify_spec (toLowerCase (js ''Hello there'')) = Unknown"
    by (simp add: spec_ev string_ev)
  have q: "classify_spec (js ''i received 50 and spent 20, how much did i spend'') = QuerySpending"
    by (simp add: spec_ev string_ev)
  have "classify_spec (toLowerCase (js ''Hello there'')) = Unknown \<longrightarrow>
        handleAiCommand plainLibrary jan10 (js ''id-1'') emptyState (js ''Hello there'')
          = (Inr capabilitySummary,
             appendChat Ai capabilitySummary (appendChat User (js ''Hello there'') emptyState))"
    using C6_first_match_wins [of plainLibrary jan10 "js ''id-1''" emptyState
        "js ''i received 50 and spent 20, how much did i spend''" "js ''Hello there''"]
    by blast
  with u q show ?thesis by blast
qed

section \<open>Statement import\<close>

lemma foldl_pushRow:
  "foldl (pushRow cur) acc rows = acc @ List.map_filter (importRow cur) rows"
  by (induction rows arbitrary: acc) (auto simp: pushRow_def List.map_filter_simps split: option.splits)

lemma importRows_map_filter: "importRows cur rows = List.map_filter (importRow cur) rows"
  by (simp add: importRows_def foldl_pushRow)

lemma importRow_accepts:
  "cur \<noteq> [] \<Longrightarrow> importRow cur row \<noteq> None \<longleftrightarrow> acceptable_spec cur row"
  by (auto simp: importRow_def acceptable_spec_def fieldPresent_def amountParsable_def
           split: option.splits)

lemma importRow_rejects:
  "cur \<noteq> [] \<Longrightarrow> (importRow cur row = None) = (\<not> acceptable_spec cur row)"
  using importRow_accepts [of cur row] by blast

lemma length_map_filter:
  "length (List.map_filter f xs) + length (filter (\<lambda>x. f x = None) xs) = length xs"
  by (induction xs) (auto simp: List.map_filter_simps split: option.splits)

text \<open>
  Claim C7, as the specification has it: a row that is passed over increments a count of
  skipped rows. The importer keeps no such count: the outcome of a file with one row in
  another currency, the new state and the alert, is the outcome of a file with no rows.
\<close>

theorem C7_counterexample:
  "importRows (js ''CZK'') [euroRow] = []
   \<and> snd (handleFileChange sampleUuid emptyState [euroRow]) = js ''Imported 0 transactions.''
   \<and> handleFileChange sampleUuid emptyState [euroRow] = handleFileChange sampleUuid emptyState []"
  by (simp add: import_ev string_ev number_ev example_ev command_ev library_ev)

text \<open>
  Claim C7, amended. For a selected currency that is not the empty text, a row of a
  statement is in the accepted output if and only if its four fields are present, its
  currency is the selected one and its amount can be parsed; the accepted output holds the
  records of these rows once each and in the order of the rows. Every other row is passed
  over without an exception, so that the accepted rows and the rows passed over make up
  the file; no count of them is kept, and the alert reports the number of imported rows
  only.
\<close>

theorem C7_rows_accepted_or_passed_over:
  assumes "cur \<noteq> []"
  shows "(importRow cur row \<noteq> None \<longleftrightarrow> acceptable_spec cur row)
       \<and> importRows cur rows = List.map_filter (importRow cur) rows
       \<and> length (importRows cur rows) + length (filter (\<lambda>r. \<not> acceptable_spec cur r) rows)
           = length rows
       \<and> (selectedCurrency st = cur \<longrightarrow>
            snd (handleFileChange uuid st rows)
              = js ''Imported '' @ digitsOf (length (importRows cur rows)) @ js '' transactions.'')"
proof -
  have same: "(\<lambda>r. \<not> acceptable_spec cur r) = (\<lambda>r. importRow cur r = None)"
    by (simp add: importRow_rejects [OF assms])
  show ?thesis
    using importRow_accepts [OF assms, of row] length_map_filter [of "importRow cur" rows]
    by (simp add: importRows_map_filter same handleFileChange_def importAlert_def)
qed

theorem C7_rows_accepted_or_passed_over_witness:
  "js ''CZK'' \<noteq> []
   \<and> acceptable_spec (js ''CZK'') crownRow
   \<and> \<not> acceptable_spec (js ''CZK'') euroRow
   \<and> importRows (js ''CZK'') [euroRow, crownRow] = [potraviny]
   \<and> snd (handleFileChange sampleUuid emptyState [euroRow, crownRow])
       = js ''Imported 1 transactions.''"
proof -
  have cur: "js ''CZK'' \<noteq> []"
    by (simp add: js_def)
  have c: "importRow (js ''CZK'') crownRow \<noteq> None"
    by (simp add: import_ev string_ev number_ev example_ev)
  have e: "importRow (js ''CZK'') euroRow = None"
    by (simp add: import_ev string_ev number_ev example_ev)
  have rows: "importRows (js ''CZK'') [euroRow, crownRow] = [potraviny]"
    by (simp add: import_ev string_ev number_ev example_ev)
  have alert: "snd (handleFileChange sampleUuid emptyState [euroRow, crownRow])
       = js ''Imported 1 transactions.''"
    by (simp add: import_ev string_ev number_ev example_ev command_ev library_ev)
  have "acceptable_spec (js ''CZK'') crownRow"
    using C7_rows_accepted_or_passed_over [OF cur, of crownRow] c by blast
  moreover have "\<not> acceptable_spec (js ''CZK'') euroRow"
    using C7_rows_accepted_or_passed_over [OF cur, of euroRow] e by blast
  ultimately show ?thesis using cur rows alert by blast
qed

lemma length_assignIds: "length (assignIds uuid n ts) = length ts"
  by (induction ts arbitrary: n) auto

lemma nth_assignIds:
  "i < length ts \<Longrightarrow> assignIds uuid n ts ! i = withId (ts ! i) (uuid (n + i))"
proof (induction ts arbitrary: n i)
  case Nil
  then show ?case by simp
next
  case (Cons t ts)
  show ?case
  proof (cases i)
    case 0
    then show ?thesis by simp
  next
    case (Suc j)
    with Cons.prems have "j < length ts" by simp
    from Cons.IH [OF this, of "Suc n"] Suc show ?thesis by simp
  qed
qed

lemma ids_assignIds: "map tx_id (assignIds uuid n ts) = map uuid [n..<n + length ts]"
proof (induction ts arbitrary: n)
  case Nil
  then show ?case by simp
next
  case (Cons t ts)
  have "[n..<n + length (t # ts)] = n # [Suc n..<Suc n + length ts]"
    by (subst upt_rec) simp
  then show ?case using Cons.IH [of "Suc n"] by (simp add: withId_def)
qed

text \<open>
  Claim C10. Importing a statement neither removes nor changes a transaction: the ledger
  afterwards is the ledger before, followed by the accepted rows in the order of the file,
  each with the id that \<open>uuidv4\<close> returned for it. When these ids are new and differ from
  one another, the ids of the ledger stay distinct.
\<close>

theorem C10_import_appends:
  "transactions (handleImportTransactions uuid st imported)
     = transactions st @ assignIds uuid 0 imported
   \<and> length (assignIds uuid 0 imported) = length imported
   \<and> (\<forall>i < length imported.
         assignIds uuid 0 imported ! i
           = \<lparr>date = date (imported ! i), description = description (imported ! i),
              amount = amount (imported ! i), category = category (imported ! i),
              tx_id = uuid i\<rparr>)
   \<and> goals (handleImportTransactions uuid st imported) = goals st
   \<and> predictedIncome (handleImportTransactions uuid st imported) = predictedIncome st
   \<and> transactions (fst (handleFileChange uuid st rows))
       = transactions st
         @ assignIds uuid 0 (List.map_filter (importRow (selectedCurrency st)) rows)
   \<and> (distinct (map tx_id (transactions st)) \<and> inj_on uuid {..<length imported}
        \<and> (\<forall>i < length imported. uuid i \<notin> set (map tx_id (transactions st)))
        \<longrightarrow> distinct (map tx_id (transactions (handleImportTransactions uuid st imported))))"
proof -
  have nth: "assignIds uuid 0 imported ! i
           = \<lparr>date = date (imported ! i), description = description (imported ! i),
              amount = amount (imported ! i), category = category (imported ! i),
              tx_id = uuid i\<rparr>" if "i < length imported" for i
    using nth_assignIds [OF that, of uuid 0] by (simp add: withId_def)
  have fresh: "distinct (map tx_id (transactions st @ assignIds uuid 0 imported))"
    if d: "distinct (map tx_id (transactions st))" and inj: "inj_on uuid {..<length imported}"
      and new: "\<forall>i < length imported. uuid i \<notin> set (map tx_id (transactions st))"
  proof -
    have ids: "map tx_id (assignIds uuid 0 imported) = map uuid [0..<length imported]"
      using ids_assignIds [of uuid 0 imported] by simp
    have "distinct (map uuid [0..<length imported])"
      using inj by (simp add: distinct_map atLeast_upt [symmetric] lessThan_atLeast0)
    moreover have "set (map tx_id (transactions st)) \<inter> set (map uuid [0..<length imported]) = {}"
      using new by (auto simp: image_iff) metis
    ultimately show ?thesis using d by (simp add: ids)
  qed
  show ?thesis
    using nth fresh
    by (simp add: handleImportTransactions_def handleFileChange_def length_assignIds
                  importRows_map_filter)
qed

theorem C10_import_appends_witness:
  "transactions (handleImportTransactions sampleUuid fuelLedger [potraviny])
     = transactions fuelLedger
       @ [\<lparr>date = js ''2025-01-11'', description = js ''Potraviny'',
           amount = Num (- (2469 / 2)), category = js ''Uncategorized'', tx_id = js ''id-0''\<rparr>]
   \<and> distinct (map tx_id (transactions fuelLedger))
   \<and> inj_on sampleUuid {..<length [potraviny]}
   \<and> distinct (map tx_id (transactions (handleImportTransactions sampleUuid fuelLedger
                                              [potraviny])))"
proof -
  have ids: "assignIds sampleUuid 0 [potraviny]
     = [\<lparr>date = js ''2025-01-11'', description = js ''Potraviny'',
         amount = Num (- (2469 / 2)), category = js ''Uncategorized'', tx_id = js ''id-0''\<rparr>]"
    by (simp add: withId_def string_ev example_ev)
  have d: "distinct (map tx_id (transactions fuelLedger))"
    by (simp add: string_ev library_ev example_ev)
  have i: "inj_on sampleUuid {..<length [potraviny]}"
    by (simp add: lessThan_Suc)
  have n: "\<forall>i < length [potraviny]. sampleUuid i \<notin> set (map tx_id (transactions fuelLedger))"
    by (simp add: string_ev library_ev example_ev)
  from C10_import_appends [of sampleUuid fuelLedger "[potraviny]" "[]"] d i n
  have "transactions (handleImportTransactions sampleUuid fuelLedger [potraviny])
          = transactions fuelLedger @ assignIds sampleUuid 0 [potraviny]"
    and "distinct (map tx_id (transactions (handleImportTransactions sampleUuid fuelLedger
                                              [potraviny])))"
    by blast+
  with ids d i show ?thesis by simp
qed

section \<open>Amount parsing\<close>

lemma digit_facts:
  "isDigit c \<Longrightarrow> \<not> isWhiteSpace c \<and> c \<noteq> 45 \<and> c \<noteq> 43 \<and> c \<noteq> 73 \<and> c \<noteq> 44 \<and> c \<noteq> 46"
  by (auto simp: isDigit_def isWhiteSpace_def wsRanges_def)

lemma digits_no_comma: "list_all isDigit ds \<Longrightarrow> 44 \<notin> set ds"
  by (auto simp: list_all_iff dest: digit_facts)

lemma replaceFirst_absent: "a \<notin> set xs \<Longrightarrow> replaceFirst a b xs = xs"
  by (induction xs) auto

lemma replaceFirst_first:
  "a \<notin> set xs \<Longrightarrow> replaceFirst a b (xs @ a # ys) = xs @ b # ys"
  by (induction xs) auto

lemma parseFloat_decimal:
  assumes ip: "ip \<noteq> []" "list_all isDigit ip" and fp: "list_all isDigit fp"
  shows "parseFloat (ip @ 46 # fp) = Num (of_nat (digitsValue (ip @ fp)) / 10 ^ length fp)"
proof -
  from ip obtain c cs where ipc: "ip = c # cs" and c: "isDigit c"
    by (cases ip) auto
  have all_ip: "\<And>x. x \<in> set ip \<Longrightarrow> isDigit x" and all_fp: "\<And>x. x \<in> set fp \<Longrightarrow> isDigit x"
    using ip fp by (auto simp: list_all_iff)
  have nd: "\<not> isDigit 46"
    by (simp add: isDigit_def)
  have skip: "dropWhile isWhiteSpace (ip @ 46 # fp) = ip @ 46 # fp"
    using digit_facts [OF c] by (simp add: ipc)
  have sign: "splitSign (ip @ 46 # fp) = (False, ip @ 46 # fp)"
    using digit_facts [OF c] by (simp add: ipc splitSign_def)
  have inf: "\<not> startsWith (ip @ 46 # fp) (js ''Infinity'')"
    using digit_facts [OF c] by (auto simp: ipc startsWith_def js_def)
  have tw: "takeWhile isDigit (ip @ 46 # fp) = ip"
    using all_ip nd by (simp add: takeWhile_append2)
  have dw: "dropWhile isDigit (ip @ 46 # fp) = 46 # fp"
    using all_ip nd by (simp add: dropWhile_append2)
  have tf: "takeWhile isDigit fp = fp" and df: "dropWhile isDigit fp = []"
    using all_fp by (simp_all add: takeWhile_eq_all_conv)
  show ?thesis
    using ip(1)
    by (simp add: parseFloat_def skip sign inf tw dw tf df parseExponent_def pow10_def)
qed

lemma cleaned_filter:
  "cleanedAmountStr s = replaceFirst 44 46 (filter (\<lambda>c. \<not> isWhiteSpace c) s)"
proof -
  have "isWhiteSpace 160"
    by (simp add: isWhiteSpace_def wsRanges_def)
  then have "(\<lambda>c. \<not> (isWhiteSpace c \<or> c = 160)) = (\<lambda>c. \<not> isWhiteSpace c)"
    by auto
  then show ?thesis by (simp add: cleanedAmountStr_def)
qed

lemma cleaned_decimal:
  assumes "filter (\<lambda>c. \<not> isWhiteSpace c) s = ip @ sep # fp" "sep = 46 \<or> sep = 44"
    "list_all isDigit ip" "list_all isDigit fp"
  shows "cleanedAmountStr s = ip @ 46 # fp"
proof -
  have no: "44 \<notin> set ip" "44 \<notin> set fp"
    using assms(3,4) by (simp_all add: digits_no_comma)
  from assms(2) show ?thesis
  proof
    assume "sep = 46"
    with no have "44 \<notin> set (ip @ sep # fp)" by simp
    then show ?thesis using \<open>sep = 46\<close>
      by (simp add: cleaned_filter assms(1) replaceFirst_absent del: set_append)
  next
    assume "sep = 44"
    then show ?thesis
      using no by (simp add: cleaned_filter assms(1) replaceFirst_first)
  qed
qed

text \<open>
  Claim C2, as the specification has it: "1 234,50", "1,234.50" and "1234.5" all parse to
  1234.5 on both paths. In the statement importer a comma is the decimal separator, not a
  thousands separator: "1,234.50" becomes "1.234.50" and parses to 1.234.
\<close>

theorem C2_counterexample:
  "importAmount (js ''1,234.50'') = Num (617 / 500)
   \<and> importAmount (js ''1234.5'') = Num (2469 / 2)
   \<and> importAmount (js ''1,234.50'') \<noteq> importAmount (js ''1234.5'')"
  by (simp add: import_ev string_ev number_ev)

text \<open>
  Claim C2, amended. In the statement importer, white space and no-break spaces in the
  amount are dropped and the first comma is read as the decimal point: a text that is,
  white space apart, a run of digits, a dot or a comma, and a run of digits parses to the
  same number as its canonical form with a dot, the number these digits denote, so
  "1 234,50" and "1234.5" both parse to 1234.5. In the command interpreter, where commas
  and spaces group thousands, "1,234.50" parses to 1234.5.
\<close>

theorem C2_amounts_by_design:
  assumes "filter (\<lambda>c. \<not> isWhiteSpace c) s = ip @ sep # fp" "sep = 46 \<or> sep = 44"
    "ip \<noteq> []" "list_all isDigit ip" "list_all isDigit fp"
  shows "importAmount s = importAmount (ip @ 46 # fp)
       \<and> importAmount s = Num (of_nat (digitsValue (ip @ fp)) / 10 ^ length fp)
       \<and> goalAmount (js ''1,234.50'') = Num (2469 / 2)
       \<and> amountVal (js ''1,234.50'') = Num (2469 / 2)"
proof -
  have "\<not> isWhiteSpace 46"
    by (simp add: isWhiteSpace_def wsRanges_def)
  then have "\<forall>x \<in> set (ip @ 46 # fp). \<not> isWhiteSpace x"
    using assms(4,5) by (auto simp: list_all_iff dest: digit_facts)
  then have ws: "filter (\<lambda>c. \<not> isWhiteSpace c) (ip @ 46 # fp) = ip @ 46 # fp"
    by (simp only: filter_id_conv)
  have a: "cleanedAmountStr s = ip @ 46 # fp"
    using assms(1,2,4,5) by (rule cleaned_decimal)
  have b: "cleanedAmountStr (ip @ 46 # fp) = ip @ 46 # fp"
    using ws assms(4,5) by (intro cleaned_decimal [where sep = 46]) simp_all
  have v: "parseFloat (ip @ 46 # fp) = Num (of_nat (digitsValue (ip @ fp)) / 10 ^ length fp)"
    using assms(3,4,5) by (rule parseFloat_decimal)
  have g: "goalAmount (js ''1,234.50'') = Num (2469 / 2)"
    by (simp add: string_ev regex_ev pattern_ev command_ev number_ev)
  have t: "amountVal (js ''1,234.50'') = Num (2469 / 2)"
    by (simp add: string_ev regex_ev pattern_ev command_ev number_ev)
  show ?thesis
    by (simp add: importAmount_def a b v g t)
qed

theorem C2_amounts_by_design_witness:
  "filter (\<lambda>c. \<not> isWhiteSpace c) (js ''1 234,50'') = js ''1234'' @ 44 # js ''50''
   \<and> importAmount (js ''1 234,50'') = importAmount (js ''1234'' @ 46 # js ''50'')
   \<and> importAmount (js ''1 234,50'') = Num (2469 / 2)
   \<and> importAmount (js ''1234.5'') = Num (2469 / 2)"
proof -
  have f: "filter (\<lambda>c. \<not> isWhiteSpace c) (js ''1 234,50'') = js ''1234'' @ 44 # js ''50''"
    by (simp add: string_ev)
  have d: "js ''1234'' \<noteq> []" "list_all isDigit (js ''1234'')" "list_all isDigit (js ''50'')"
    by (simp_all add: string_ev)
  have val: "Num (of_nat (digitsValue (js ''1234'' @ js ''50'')) / 10 ^ length (js ''50'')) = Num (2469 / 2)"
    by (simp add: string_ev number_ev)
  have plain: "importAmount (js ''1234.5'') = Num (2469 / 2)"
    by (simp add: import_ev string_ev number_ev)
  have "importAmount (js ''1 234,50'') = importAmount (js ''1234'' @ 46 # js ''50'')
       \<and> importAmount (js ''1 234,50'')
           = Num (of_nat (digitsValue (js ''1234'' @ js ''50'')) / 10 ^ length (js ''50''))
       \<and> goalAmount (js ''1,234.50'') = Num (2469 / 2)
       \<and> amountVal (js ''1,234.50'') = Num (2469 / 2)"
    using C2_amounts_by_design [OF f disjI2 [OF refl] d] .
  then have e1: "importAmount (js ''1 234,50'') = importAmount (js ''1234'' @ 46 # js ''50'')"
    and e2: "importAmount (js ''1 234,50'')
           = Num (of_nat (digitsValue (js ''1234'' @ js ''50'')) / 10 ^ length (js ''50''))"
    by blast+
  from e2 val have e3: "importAmount (js ''1 234,50'') = Num (2469 / 2)"
    by (rule trans)
  from f e1 e3 plain show ?thesis by blast
qed


end
